theory Spec2Isabelle
  imports Complex_Main "HOL-Library.Multiset" "HOL-Library.Word"
    "HOL-Library.Char_ord" "HOL-Library.List_Lexorder"
begin

section \<open>The composite mosaic of asf\_tools: a shallow embedding of composite.py\<close>

text \<open>
  The theory follows \<^verbatim>\<open>src/asf_tools/composite.py\<close> function by function. Raster
  samples and the two accumulated grids are floating-point numbers: finite numbers,
  infinities and NaN, with every operation of numpy rounded in the type in which numpy
  carries it out. Python floats that hold coordinates and pixel sizes are modelled by
  \<^typ>\<open>real\<close> without rounding; the extent is a reduction by \<^verbatim>\<open>min\<close> and \<^verbatim>\<open>max\<close>, which do
  not round, and the general theorems take the slices of a raster as the run computed
  them. Calls into GDAL, hyp3lib and the operating system are parameters of the model.
  The calls to \<^verbatim>\<open>logging\<close> take no part in any result and are left out.
\<close>

subsection \<open>The extent unifier: \<^verbatim>\<open>get_full_extent\<close> (lines 53--68)\<close>

text \<open>
  An entry of \<^verbatim>\<open>corners\<close> is the five-element list \<^verbatim>\<open>[fi, ulx, lrx, lry, uly]\<close>
  that \<^verbatim>\<open>make_composite\<close> builds (line 201): the file name, the west edge, the east
  edge, the south edge and the north edge.
\<close>

type_synonym fname = string

type_synonym corner = "fname \<times> real \<times> real \<times> real \<times> real"

text \<open>
  The loop of lines 60--65. The accumulator is
  \<^verbatim>\<open>(min_ulx, max_lrx, max_uly, min_lry)\<close>, in the order of the \<^verbatim>\<open>return\<close> of line 68.
\<close>

fun extent_loop :: "corner list \<Rightarrow> real \<times> real \<times> real \<times> real \<Rightarrow> real \<times> real \<times> real \<times> real" where
  "extent_loop [] acc = acc"
| "extent_loop ((fi, ulx, lrx, lry, uly) # corners) (min_ulx, max_lrx, max_uly, min_lry) =
     extent_loop corners (min ulx min_ulx, max lrx max_lrx, max uly max_uly, min lry min_lry)"

definition get_full_extent :: "corner list \<Rightarrow> real \<times> real \<times> real \<times> real" where
  "get_full_extent corners = extent_loop corners (50000000, 0, 0, 50000000)"

text \<open>The projections of a corner record, in the spec's names.\<close>

definition min_x :: "corner \<Rightarrow> real" where
  "min_x c = (case c of (fi, ulx, lrx, lry, uly) \<Rightarrow> ulx)"

definition max_x :: "corner \<Rightarrow> real" where
  "max_x c = (case c of (fi, ulx, lrx, lry, uly) \<Rightarrow> lrx)"

definition min_y :: "corner \<Rightarrow> real" where
  "min_y c = (case c of (fi, ulx, lrx, lry, uly) \<Rightarrow> lry)"

definition max_y :: "corner \<Rightarrow> real" where
  "max_y c = (case c of (fi, ulx, lrx, lry, uly) \<Rightarrow> uly)"

subsection \<open>Python strings\<close>

text \<open>\<^verbatim>\<open>sub in s\<close>: \<^verbatim>\<open>sub\<close> occurs in \<^verbatim>\<open>s\<close> as a contiguous substring.\<close>

fun py_in :: "string \<Rightarrow> string \<Rightarrow> bool" where
  "py_in sub [] = (sub = [])"
| "py_in sub (c # cs) = (take (length sub) (c # cs) = sub \<or> py_in sub cs)"

text \<open>\<^verbatim>\<open>s.find(sub)\<close>: the index of the first occurrence, or -1.\<close>

fun py_find :: "string \<Rightarrow> string \<Rightarrow> int" where
  "py_find [] sub = (if sub = [] then 0 else - 1)"
| "py_find (c # cs) sub =
     (if take (length sub) (c # cs) = sub then 0
      else (let r = py_find cs sub in if r < 0 then - 1 else r + 1))"

text \<open>
  \<^verbatim>\<open>s.replace(old, new)\<close>: every occurrence of \<^verbatim>\<open>old\<close>, found from left to right
  without overlap, is replaced by \<^verbatim>\<open>new\<close>.
\<close>

function py_replace :: "string \<Rightarrow> string \<Rightarrow> string \<Rightarrow> string" where
  "py_replace [] old new = (if old = [] then new else [])"
| "py_replace (c # cs) old new =
     (if old = [] then new @ c # py_replace cs old new
      else if take (length old) (c # cs) = old
        then new @ py_replace (drop (length old) (c # cs)) old new
      else c # py_replace cs old new)"
  by pat_completeness auto
termination
  by (relation "measure (\<lambda>(s, old, new). length s)") auto

text \<open>\<^verbatim>\<open>int(s)\<close> on a string of ASCII digits, and \<^verbatim>\<open>'%02d' % n\<close>.\<close>

definition is_digit :: "char \<Rightarrow> bool" where
  "is_digit c = (c \<in> set ''0123456789'')"

definition digit_val :: "char \<Rightarrow> int" where
  "digit_val c = int (of_char c) - 48"

definition int_of_digits :: "string \<Rightarrow> int" where
  "int_of_digits ds = foldl (\<lambda>n c. 10 * n + digit_val c) 0 ds"

fun dec_digits :: "nat \<Rightarrow> nat \<Rightarrow> string" where
  "dec_digits 0 n = []"
| "dec_digits (Suc fuel) n =
     (if n < 10 then [char_of (48 + n)]
      else dec_digits fuel (n div 10) @ [char_of (48 + n mod 10)])"

definition str_of_nat :: "nat \<Rightarrow> string" where
  "str_of_nat n = dec_digits (Suc n) n"

definition fmt_02d :: "int \<Rightarrow> string" where
  "fmt_02d n =
     (if n < 0 then CHR ''-'' # str_of_nat (nat (- n))
      else if n < 10 then CHR ''0'' # str_of_nat (nat n)
      else str_of_nat (nat n))"

text \<open>
  \<^verbatim>\<open>re.search("(\d+)(.)", s)\<close>: the leftmost match of one or more digits followed by
  one character that is not a newline. The digits are matched greedily; when the
  longest run of digits is followed by nothing (or by a newline) the matcher gives the
  last digit back to the second group. \<^verbatim>\<open>None\<close> when nothing matches.
\<close>

definition match_here :: "string \<Rightarrow> (string \<times> char) option" where
  "match_here s =
     (let ds = takeWhile is_digit s; rest = dropWhile is_digit s in
      if ds = [] then None
      else if rest \<noteq> [] \<and> hd rest \<noteq> CHR 0x0A then Some (ds, hd rest)
      else if 2 \<le> length ds then Some (butlast ds, last ds)
      else None)"

fun re_search :: "string \<Rightarrow> (string \<times> char) option" where
  "re_search [] = None"
| "re_search (c # cs) =
     (case match_here (c # cs) of Some m \<Rightarrow> Some m | None \<Rightarrow> re_search cs)"

subsection \<open>Python and numpy numbers\<close>

text \<open>\<^verbatim>\<open>int(x)\<close> on a float truncates towards zero.\<close>

definition py_int :: "real \<Rightarrow> int" where
  "py_int x = (if 0 \<le> x then \<lfloor>x\<rfloor> else \<lceil>x\<rceil>)"

text \<open>
  A numpy floating-point sample: a finite number, an infinity or NaN. Signed zeros are
  not told apart: a zero divisor counts as \<open>+0\<close>, which is what the accumulated weights
  hold (they start at \<open>+0.0\<close>, and a sum of two numbers is \<open>-0.0\<close> only when both are).
\<close>

datatype npfloat = Fin real | PInf | NInf | NaN

text \<open>
  The floating-point types of the program. A raster is read as an array of the type
  of its band, \<^verbatim>\<open>float32\<close> or \<^verbatim>\<open>float64\<close> (a band of an integer type is not
  modelled); the grids of lines 211 and 212 are \<^verbatim>\<open>float64\<close>. A type is given by its
  precision (the number of bits of the significand, the hidden bit included) and by the
  least and the greatest exponent of its normal numbers.
\<close>

datatype dtype = Float32 | Float64

definition precision :: "dtype \<Rightarrow> nat" where
  "precision dt = (case dt of Float32 \<Rightarrow> 24 | Float64 \<Rightarrow> 53)"

definition emin :: "dtype \<Rightarrow> int" where
  "emin dt = (case dt of Float32 \<Rightarrow> - 126 | Float64 \<Rightarrow> - 1022)"

definition emax :: "dtype \<Rightarrow> int" where
  "emax dt = (case dt of Float32 \<Rightarrow> 127 | Float64 \<Rightarrow> 1023)"

text \<open>The number of binary digits of a natural number.\<close>

function bit_length :: "nat \<Rightarrow> nat" where
  "bit_length n = (if n = 0 then 0 else Suc (bit_length (n div 2)))"
  by pat_completeness auto
termination
  by (relation "measure (\<lambda>n. n)") auto

declare bit_length.simps [simp del]

definition pow2 :: "int \<Rightarrow> real" where
  "pow2 k = (if 0 \<le> k then 2 ^ nat k else 1 / 2 ^ nat (- k))"

text \<open>The exponent \<open>e\<close> of a number \<open>x\<close> other than 0: \<open>2\<^sup>e \<le> \<bar>x\<bar> < 2\<^sup>e\<^sup>+\<^sup>1\<close>.\<close>

definition binade :: "real \<Rightarrow> int" where
  "binade x =
     (if 1 \<le> \<bar>x\<bar> then int (bit_length (nat \<lfloor>\<bar>x\<bar>\<rfloor>)) - 1
      else - int (bit_length (nat (\<lceil>1 / \<bar>x\<bar>\<rceil> - 1))))"

text \<open>The nearest integer, the even one of the two when \<open>x\<close> lies half way.\<close>

definition round_half_even :: "real \<Rightarrow> int" where
  "round_half_even x =
     (if x - of_int \<lfloor>x\<rfloor> < 1 / 2 then \<lfloor>x\<rfloor>
      else if 1 / 2 < x - of_int \<lfloor>x\<rfloor> then \<lfloor>x\<rfloor> + 1
      else if even \<lfloor>x\<rfloor> then \<lfloor>x\<rfloor> else \<lfloor>x\<rfloor> + 1)"

text \<open>
  The rounding of IEEE 754 that numpy uses, to the nearest number of the type with ties
  to the even significand. The numbers of the type around \<open>x\<close> are the multiples of
  \<open>q = 2\<^sup>e\<^sup>-\<^sup>p\<^sup>+\<^sup>1\<close>, for the exponent \<open>e\<close> of \<open>x\<close> and the precision \<open>p\<close>; below the least
  exponent they are the subnormal numbers, with the spacing of the least exponent. A
  result of magnitude \<open>2\<^sup>e\<^sup>m\<^sup>a\<^sup>x\<^sup>+\<^sup>1\<close> or more is an infinity.
\<close>

definition ieee_round :: "dtype \<Rightarrow> real \<Rightarrow> npfloat" where
  "ieee_round dt x =
     (if x = 0 then Fin 0
      else
        (let q = pow2 (max (binade x) (emin dt) - int (precision dt) + 1);
             r = of_int (round_half_even (x / q)) * q
         in if pow2 (emax dt + 1) \<le> \<bar>r\<bar> then (if 0 < x then PInf else NInf) else Fin r))"


text \<open>
  The operations of numpy, carried out in the type \<open>dt\<close>: the exact result on finite
  numbers is rounded, the special values follow IEEE 754.
\<close>

fun np_add :: "dtype \<Rightarrow> npfloat \<Rightarrow> npfloat \<Rightarrow> npfloat" where
  "np_add dt (Fin a) (Fin b) = ieee_round dt (a + b)"
| "np_add dt NaN y = NaN"
| "np_add dt x NaN = NaN"
| "np_add dt PInf NInf = NaN"
| "np_add dt NInf PInf = NaN"
| "np_add dt PInf y = PInf"
| "np_add dt x PInf = PInf"
| "np_add dt NInf y = NInf"
| "np_add dt x NInf = NInf"

fun np_mul :: "dtype \<Rightarrow> npfloat \<Rightarrow> npfloat \<Rightarrow> npfloat" where
  "np_mul dt (Fin a) (Fin b) = ieee_round dt (a * b)"
| "np_mul dt NaN y = NaN"
| "np_mul dt x NaN = NaN"
| "np_mul dt (Fin a) PInf = (if a = 0 then NaN else if 0 < a then PInf else NInf)"
| "np_mul dt (Fin a) NInf = (if a = 0 then NaN else if 0 < a then NInf else PInf)"
| "np_mul dt PInf (Fin b) = (if b = 0 then NaN else if 0 < b then PInf else NInf)"
| "np_mul dt NInf (Fin b) = (if b = 0 then NaN else if 0 < b then NInf else PInf)"
| "np_mul dt PInf PInf = PInf"
| "np_mul dt PInf NInf = NInf"
| "np_mul dt NInf PInf = NInf"
| "np_mul dt NInf NInf = PInf"

fun np_div :: "dtype \<Rightarrow> npfloat \<Rightarrow> npfloat \<Rightarrow> npfloat" where
  "np_div dt (Fin a) (Fin b) =
     (if b \<noteq> 0 then ieee_round dt (a / b)
      else if a = 0 then NaN
      else if 0 < a then PInf else NInf)"
| "np_div dt NaN y = NaN"
| "np_div dt x NaN = NaN"
| "np_div dt (Fin a) PInf = Fin 0"
| "np_div dt (Fin a) NInf = Fin 0"
| "np_div dt PInf (Fin b) = (if 0 \<le> b then PInf else NInf)"
| "np_div dt NInf (Fin b) = (if 0 \<le> b then NInf else PInf)"
| "np_div dt PInf PInf = NaN"
| "np_div dt PInf NInf = NaN"
| "np_div dt NInf PInf = NaN"
| "np_div dt NInf NInf = NaN"

text \<open>
  The type in which numpy carries out an operation on two arrays: \<^verbatim>\<open>float32\<close> when both
  are \<^verbatim>\<open>float32\<close>, else \<^verbatim>\<open>float64\<close>. A Python float such as \<^verbatim>\<open>1.0\<close> does not change the
  type of the array it is combined with.
\<close>

definition result_type :: "dtype \<Rightarrow> dtype \<Rightarrow> dtype" where
  "result_type a b = (if a = Float32 \<and> b = Float32 then Float32 else Float64)"


definition is_finite :: "npfloat \<Rightarrow> bool" where
  "is_finite x = (case x of Fin r \<Rightarrow> True | _ \<Rightarrow> False)"


text \<open>
  \<^verbatim>\<open>np.median\<close> of an \<^verbatim>\<open>int8\<close> array: the middle element of the sorted array, the
  mean of the two middle elements when the length is even, NaN when it is empty. The
  result is a \<^verbatim>\<open>float64\<close>, in which an \<^verbatim>\<open>int8\<close> number and the half of a sum of two are
  exact.
\<close>

type_synonym int8 = "8 word"
type_synonym int16 = "16 word"

definition np_median :: "int8 list \<Rightarrow> npfloat" where
  "np_median zs =
     (let srt = sort (map sint zs); n = length srt in
      if n = 0 then NaN
      else if odd n then Fin (real_of_int (srt ! (n div 2)))
      else Fin ((real_of_int (srt ! (n div 2 - 1)) + real_of_int (srt ! (n div 2))) / 2))"

subsection \<open>Two-dimensional numpy arrays\<close>

text \<open>
  An array is its shape and its samples, addressed by row and column. Only samples
  inside the shape are read.
\<close>

record 'a ndarray =
  nrows :: nat
  ncols :: nat
  item :: "nat \<Rightarrow> nat \<Rightarrow> 'a"

datatype py_error =
  TypeError | NameError | AttributeError | ValueError | ZeroDivisionError
  | FileExistsError | Exception string | ExternalError string

definition np_full :: "nat \<Rightarrow> nat \<Rightarrow> 'a \<Rightarrow> 'a ndarray" where
  "np_full h w z = \<lparr>nrows = h, ncols = w, item = (\<lambda>i j. z)\<rparr>"

definition map_array :: "('a \<Rightarrow> 'b) \<Rightarrow> 'a ndarray \<Rightarrow> 'b ndarray" where
  "map_array f A = \<lparr>nrows = nrows A, ncols = ncols A, item = (\<lambda>i j. f (item A i j))\<rparr>"

text \<open>
  Broadcasting: two lengths are compatible when they are equal or one of them is 1;
  an axis of length 1 is read at index 0 whatever the index asked for.
\<close>

definition bdim :: "nat \<Rightarrow> nat \<Rightarrow> nat option" where
  "bdim a b = (if a = b then Some a else if a = 1 then Some b else if b = 1 then Some a else None)"

definition bc :: "nat \<Rightarrow> nat \<Rightarrow> nat" where
  "bc d i = (if d = 1 then 0 else i)"

definition broadcast2 ::
  "('a \<Rightarrow> 'b \<Rightarrow> 'c) \<Rightarrow> 'a ndarray \<Rightarrow> 'b ndarray \<Rightarrow> py_error + 'c ndarray" where
  "broadcast2 f A B =
     (case (bdim (nrows A) (nrows B), bdim (ncols A) (ncols B)) of
        (Some r, Some c) \<Rightarrow>
          Inr \<lparr>nrows = r, ncols = c,
               item = (\<lambda>i j. f (item A (bc (nrows A) i) (bc (ncols A) j))
                                (item B (bc (nrows B) i) (bc (ncols B) j)))\<rparr>
      | _ \<Rightarrow> Inl ValueError)"

text \<open>
  A slice \<^verbatim>\<open>a:b\<close> of an axis of length \<open>n\<close>: a negative bound counts from the end,
  both bounds are clipped to the axis. The result is the first index and the length.
\<close>

definition norm_index :: "nat \<Rightarrow> int \<Rightarrow> nat" where
  "norm_index n k = (if k < 0 then nat (max 0 (k + int n)) else min (nat k) n)"

definition py_slice :: "nat \<Rightarrow> int \<times> int \<Rightarrow> nat \<times> nat" where
  "py_slice n ab = (case ab of (a, b) \<Rightarrow> (norm_index n a, norm_index n b - norm_index n a))"

definition in_slice :: "nat \<Rightarrow> int \<times> int \<Rightarrow> nat \<Rightarrow> bool" where
  "in_slice n ab i = (case py_slice n ab of (s, m) \<Rightarrow> s \<le> i \<and> i < s + m)"

text \<open>
  \<^verbatim>\<open>T[r0:r1, c0:c1] += V\<close> (here with \<open>f\<close> for the addition): \<open>V\<close> is broadcast to
  the shape of the slice, and numpy raises ValueError when it cannot be.
\<close>

definition iadd_slice ::
  "('a \<Rightarrow> 'b \<Rightarrow> 'a) \<Rightarrow> 'a ndarray \<Rightarrow> int \<times> int \<Rightarrow> int \<times> int \<Rightarrow> 'b ndarray \<Rightarrow> py_error + 'a ndarray" where
  "iadd_slice f T rs cs V =
     (if (nrows V = snd (py_slice (nrows T) rs) \<or> nrows V = 1)
         \<and> (ncols V = snd (py_slice (ncols T) cs) \<or> ncols V = 1)
      then Inr \<lparr>nrows = nrows T, ncols = ncols T,
                item = (\<lambda>i j. if in_slice (nrows T) rs i \<and> in_slice (ncols T) cs j
                   then f (item T i j)
                          (item V (bc (nrows V) (i - fst (py_slice (nrows T) rs)))
                                  (bc (ncols V) (j - fst (py_slice (ncols T) cs))))
                   else item T i j)\<rparr>
      else Inl ValueError)"

text \<open>\<^verbatim>\<open>T[r0:r1, c0:c1] += x\<close> for a scalar \<open>x\<close>: a scalar always broadcasts.\<close>

definition iadd_slice_scalar ::
  "('a \<Rightarrow> 'b \<Rightarrow> 'a) \<Rightarrow> 'a ndarray \<Rightarrow> int \<times> int \<Rightarrow> int \<times> int \<Rightarrow> 'b \<Rightarrow> 'a ndarray" where
  "iadd_slice_scalar f T rs cs x =
     \<lparr>nrows = nrows T, ncols = ncols T,
      item = (\<lambda>i j. if in_slice (nrows T) rs i \<and> in_slice (ncols T) cs j
                     then f (item T i j) x else item T i j)\<rparr>"

subsection \<open>The external collaborators\<close>

text \<open>
  GDAL, hyp3lib's \<^verbatim>\<open>saa_func_lib\<close>, \<^verbatim>\<open>glob\<close> and \<^verbatim>\<open>os.symlink\<close> are not code of
  this repository. They are parameters of the model: functions on a state \<open>'w\<close> of the
  outside world (the file system) that return a value or raise, and leave a new state.
  An exception does not undo what was done before it, so the state is returned in
  both cases.
\<close>

type_synonym ('a, 'w) io = "'w \<Rightarrow> (py_error + 'a) \<times> 'w"

definition io_return :: "'a \<Rightarrow> ('a, 'w) io" where
  "io_return a = (\<lambda>w. (Inr a, w))"

definition io_raise :: "py_error \<Rightarrow> ('a, 'w) io" where
  "io_raise e = (\<lambda>w. (Inl e, w))"

definition io_bind :: "('a, 'w) io \<Rightarrow> ('a \<Rightarrow> ('b, 'w) io) \<Rightarrow> ('b, 'w) io" where
  "io_bind m f = (\<lambda>w. case m w of (Inl e, w') \<Rightarrow> (Inl e, w') | (Inr a, w') \<Rightarrow> f a w')"

text \<open>The six numbers of \<^verbatim>\<open>GetGeoTransform()\<close>; \<^verbatim>\<open>trans[1]\<close> is \<open>gt1\<close>.\<close>

record geotransform =
  gt0 :: real
  gt1 :: real
  gt2 :: real
  gt3 :: real
  gt4 :: real
  gt5 :: real

text \<open>
  The arguments of a \<^verbatim>\<open>gdal.Warp\<close> call that vary (\<^verbatim>\<open>targetAlignedPixels=True\<close> and
  \<^verbatim>\<open>resampleAlg=GRIORA_Cubic\<close> are the same in every call).
\<close>

record warp_args =
  warp_dst :: fname
  warp_src :: fname
  dstSRS :: "string option"
  xRes :: real
  yRes :: real

text \<open>
  \<^item> \<open>GetProjection fi\<close> is \<^verbatim>\<open>gdal.Open(fi).GetProjection()\<close>;
  \<^item> \<open>read_gdal_file_geo fi\<close> is \<^verbatim>\<open>saa.read_gdal_file_geo(saa.open_gdal_file(fi))\<close>:
    the raster's width and height in pixels, its geotransform and its projection;
  \<^item> \<open>read_gdal_file fi\<close> is \<^verbatim>\<open>saa.read_gdal_file(saa.open_gdal_file(fi))\<close>: the
    same, and the array of the samples of the band, with its type;
  \<^item> \<open>getCorners fi\<close> is \<^verbatim>\<open>saa.getCorners(fi)\<close>, unpacked by line 200 as
    \<^verbatim>\<open>ulx, lrx, lry, uly\<close>;
  \<^item> \<open>glob path pol\<close> is \<^verbatim>\<open>glob.glob\<close> on the pattern that line 179 builds
    from \<^verbatim>\<open>path\<close> and \<^verbatim>\<open>requested_pol\<close>.
\<close>

record 'w ext =
  GetProjection :: "fname \<Rightarrow> (string, 'w) io"
  read_gdal_file_geo :: "fname \<Rightarrow> (nat \<times> nat \<times> geotransform \<times> string, 'w) io"
  read_gdal_file ::
    "fname \<Rightarrow> (nat \<times> nat \<times> geotransform \<times> string \<times> dtype \<times> npfloat ndarray, 'w) io"
  getCorners :: "fname \<Rightarrow> (real \<times> real \<times> real \<times> real, 'w) io"
  Warp :: "warp_args \<Rightarrow> (unit, 'w) io"
  symlink :: "fname \<Rightarrow> fname \<Rightarrow> (unit, 'w) io"
  write_gdal_file_float :: "fname \<Rightarrow> geotransform \<Rightarrow> string \<Rightarrow> npfloat ndarray \<Rightarrow> real \<Rightarrow> (unit, 'w) io"
  write_gdal_file :: "fname \<Rightarrow> geotransform \<Rightarrow> string \<Rightarrow> int16 ndarray \<Rightarrow> (unit, 'w) io"
  glob :: "string \<Rightarrow> string \<Rightarrow> (fname list, 'w) io"

subsection \<open>\<^verbatim>\<open>get_pol\<close> (lines 22--34)\<close>

text \<open>No other function of the file calls \<^verbatim>\<open>get_pol\<close>.\<close>

definition get_pol :: "fname \<Rightarrow> py_error + string" where
  "get_pol infile =
     (if py_in ''VV'' infile then Inr ''VV''
      else if py_in ''VH'' infile then Inr ''VH''
      else if py_in ''HH'' infile then Inr ''HH''
      else if py_in ''HV'' infile then Inr ''HV''
      else Inl (Exception (''Could not determine polarization of file '' @ infile)))"

subsection \<open>\<^verbatim>\<open>get_max_pixel_size\<close> (lines 71--81)\<close>

text \<open>
  Line 80 builds an \<^verbatim>\<open>Exception\<close> and does not raise it, so a stack with no pixel
  size above the seed returns the seed \<open>-999\<close>.
\<close>

fun max_pixel_loop :: "'w ext \<Rightarrow> fname list \<Rightarrow> real \<Rightarrow> (real, 'w) io" where
  "max_pixel_loop ext [] pix_size = io_return pix_size"
| "max_pixel_loop ext (fi # files) pix_size =
     io_bind (read_gdal_file_geo ext fi)
       (\<lambda>(x1, y1, t1, p1). max_pixel_loop ext files (max pix_size (gt1 t1)))"

definition get_max_pixel_size :: "'w ext \<Rightarrow> fname list \<Rightarrow> (real, 'w) io" where
  "get_max_pixel_size ext files = max_pixel_loop ext files (- 999)"

subsection \<open>\<^verbatim>\<open>get_zone_from_proj\<close>, \<^verbatim>\<open>get_hemisphere\<close>, \<^verbatim>\<open>parse_zones\<close> (lines 84--113)\<close>

text \<open>
  Lines 89--91 and 100--102 are the same: look for \<^verbatim>\<open>"UTM zone "\<close> in the projection
  and read the zone number and the hemisphere letter behind it. \<^verbatim>\<open>re.search\<close>
  returns \<^verbatim>\<open>None\<close> when nothing matches, and \<^verbatim>\<open>.groups()\<close> on it raises.
\<close>

definition parse_utm :: "string \<Rightarrow> py_error + (int \<times> string) option" where
  "parse_utm p1 =
     (let ptr = py_find p1 ''UTM zone '' in
      if ptr \<noteq> - 1 then
        (case re_search (drop (nat ptr) p1) of
           None \<Rightarrow> Inl AttributeError
         | Some (ds, c) \<Rightarrow> Inr (Some (int_of_digits ds, [c])))
      else Inr None)"

definition get_hemisphere :: "'w ext \<Rightarrow> fname \<Rightarrow> (string option, 'w) io" where
  "get_hemisphere ext fi =
     io_bind (GetProjection ext fi) (\<lambda>p1.
       case parse_utm p1 of
         Inl e \<Rightarrow> io_raise e
       | Inr None \<Rightarrow> io_return None
       | Inr (Some (zone, hemi)) \<Rightarrow> io_return (Some hemi))"

definition get_zone_from_proj :: "'w ext \<Rightarrow> fname \<Rightarrow> (int option, 'w) io" where
  "get_zone_from_proj ext fi =
     io_bind (GetProjection ext fi) (\<lambda>p1.
       case parse_utm p1 of
         Inl e \<Rightarrow> io_raise e
       | Inr None \<Rightarrow> io_return None
       | Inr (Some (zone, hemi)) \<Rightarrow> io_return (Some zone))"

text \<open>\<^verbatim>\<open>if zone:\<close> drops \<^verbatim>\<open>None\<close> and 0.\<close>

fun zones_loop :: "'w ext \<Rightarrow> fname list \<Rightarrow> int list \<Rightarrow> (int list, 'w) io" where
  "zones_loop ext [] zones = io_return zones"
| "zones_loop ext (fi # files) zones =
     io_bind (get_zone_from_proj ext fi) (\<lambda>zone.
       zones_loop ext files
         (case zone of None \<Rightarrow> zones | Some z \<Rightarrow> if z \<noteq> 0 then zones @ [z] else zones))"

text \<open>
  \<^verbatim>\<open>np.asarray(zones, dtype=np.int8)\<close>: a number outside the \<^verbatim>\<open>int8\<close> range wraps
  (the numpy of the code's time; UTM zones are 1 to 60).
\<close>

definition parse_zones :: "'w ext \<Rightarrow> fname list \<Rightarrow> (int8 list, 'w) io" where
  "parse_zones ext files =
     io_bind (zones_loop ext files []) (\<lambda>zones. io_return (map of_int zones))"

subsection \<open>\<^verbatim>\<open>reproject_to_median_utm\<close> (lines 116--167)\<close>

text \<open>Lines 123--129: the pixel size of the common grid. \<^verbatim>\<open>if resolution:\<close> is false for
  \<^verbatim>\<open>None\<close> and for 0.\<close>

definition target_pixel_size :: "'w ext \<Rightarrow> fname list \<Rightarrow> real option \<Rightarrow> (real, 'w) io" where
  "target_pixel_size ext files resolution =
     (case resolution of
        Some r \<Rightarrow> if r \<noteq> 0 then io_return r else get_max_pixel_size ext files
      | None \<Rightarrow> get_max_pixel_size ext files)"

text \<open>\<^verbatim>\<open>my_zone != home_zone\<close>, an \<^verbatim>\<open>int\<close> or \<^verbatim>\<open>None\<close> against a numpy float.\<close>

definition zone_differs :: "int option \<Rightarrow> npfloat \<Rightarrow> bool" where
  "zone_differs my_zone home_zone =
     (case my_zone of None \<Rightarrow> True | Some z \<Rightarrow> home_zone \<noteq> Fin (real_of_int z))"

text \<open>
  The body of the loop of lines 140--164, for one file. \<^verbatim>\<open>int(home_zone)\<close> raises
  ValueError on NaN. In the branch of lines 153--163, \<open>x\<close> is the first component of
  \<^verbatim>\<open>read_gdal_file_geo\<close>: the width of the raster in pixels.
\<close>

definition reproject_one ::
  "'w ext \<Rightarrow> real \<Rightarrow> npfloat \<Rightarrow> string option \<Rightarrow> fname \<Rightarrow> (fname, 'w) io" where
  "reproject_one ext pix_size home_zone hemi fi =
     io_bind (get_zone_from_proj ext fi) (\<lambda>my_zone.
       let name = py_replace fi ''.tif'' ''_reproj.tif'';
           afi = py_replace fi ''_flat_VV.tif'' ''_area_map.tif'';
           aname = py_replace fi ''_flat_VV.tif'' ''_area_map_reproj.tif''
       in
       if zone_differs my_zone home_zone then
         (case home_zone of
            Fin z \<Rightarrow>
              (let proj = (if hemi = Some ''N'' then ''EPSG:326'' else ''EPSG:327'')
                            @ fmt_02d (py_int z) in
               io_bind (Warp ext \<lparr>warp_dst = name, warp_src = fi, dstSRS = Some proj,
                                   xRes = pix_size, yRes = pix_size\<rparr>) (\<lambda>u.
               io_bind (Warp ext \<lparr>warp_dst = aname, warp_src = afi, dstSRS = Some proj,
                                   xRes = pix_size, yRes = pix_size\<rparr>) (\<lambda>u.
               io_return name)))
          | _ \<Rightarrow> io_raise ValueError)
       else
         io_bind (read_gdal_file_geo ext fi) (\<lambda>(x, y, trans0, proj0).
           if real x < pix_size then
             io_bind (Warp ext \<lparr>warp_dst = name, warp_src = fi, dstSRS = None,
                                 xRes = pix_size, yRes = pix_size\<rparr>) (\<lambda>u.
             io_bind (Warp ext \<lparr>warp_dst = aname, warp_src = afi, dstSRS = None,
                                 xRes = pix_size, yRes = pix_size\<rparr>) (\<lambda>u.
             io_return name))
           else
             io_bind (symlink ext fi name) (\<lambda>u.
             io_bind (symlink ext afi aname) (\<lambda>u.
             io_return name))))"

fun reproject_loop ::
  "'w ext \<Rightarrow> real \<Rightarrow> npfloat \<Rightarrow> string option \<Rightarrow> fname list \<Rightarrow> fname list \<Rightarrow> (fname list, 'w) io" where
  "reproject_loop ext pix_size home_zone hemi [] new_files = io_return new_files"
| "reproject_loop ext pix_size home_zone hemi (fi # files) new_files =
     io_bind (reproject_one ext pix_size home_zone hemi fi) (\<lambda>name.
       reproject_loop ext pix_size home_zone hemi files (new_files @ [name]))"

definition reproject_to_median_utm ::
  "'w ext \<Rightarrow> fname list \<Rightarrow> real option \<Rightarrow> (fname list option, 'w) io" where
  "reproject_to_median_utm ext files resolution =
     (if length files < 2 then io_return None
      else
        io_bind (target_pixel_size ext files resolution) (\<lambda>pix_size.
        io_bind (parse_zones ext files) (\<lambda>zones.
        io_bind (get_hemisphere ext (hd files)) (\<lambda>hemi.
        io_bind (reproject_loop ext pix_size (np_median zones) hemi files []) (\<lambda>new_files.
        io_return (Some new_files))))))"

subsection \<open>\<^verbatim>\<open>make_composite\<close> (lines 170--254)\<close>

text \<open>Lines 176--183: the list of input files, sorted.\<close>

definition establish_infiles ::
  "'w ext \<Rightarrow> fname list option \<Rightarrow> string option \<Rightarrow> string \<Rightarrow> (fname list, 'w) io" where
  "establish_infiles ext infiles path requested_pol =
     (case path of
        Some p \<Rightarrow>
          if p \<noteq> [] then io_bind (glob ext p requested_pol) (\<lambda>found. io_return (sort found))
          else (case infiles of None \<Rightarrow> io_raise AttributeError | Some fs \<Rightarrow> io_return (sort fs))
      | None \<Rightarrow> (case infiles of None \<Rightarrow> io_raise AttributeError | Some fs \<Rightarrow> io_return (sort fs)))"

text \<open>Lines 198--201: the corner record of every resampled file.\<close>

fun extents_loop :: "'w ext \<Rightarrow> fname list \<Rightarrow> corner list \<Rightarrow> (corner list, 'w) io" where
  "extents_loop ext [] extents = io_return extents"
| "extents_loop ext (fi # files) extents =
     io_bind (getCorners ext fi) (\<lambda>(ulx, lrx, lry, uly).
       extents_loop ext files (extents @ [(fi, ulx, lrx, lry, uly)]))"

text \<open>Lines 206--207: the shape of the output grid, rows first.\<close>

definition grid_shape :: "real \<times> real \<times> real \<times> real \<Rightarrow> real \<Rightarrow> real \<Rightarrow> py_error + nat \<times> nat" where
  "grid_shape extent pixel_size_x pixel_size_y =
     (case extent of (ulx, lrx, uly, lry) \<Rightarrow>
        if pixel_size_x = 0 \<or> pixel_size_y = 0 then Inl ZeroDivisionError
        else Inr (nat \<bar>py_int ((lry - uly) / pixel_size_y)\<bar>,
                  nat \<bar>py_int ((ulx - lrx) / pixel_size_x)\<bar>))"

text \<open>The three grids of lines 211--213; the coverage count is an \<^verbatim>\<open>int8\<close> array.\<close>

record grids =
  outputs :: "npfloat ndarray"
  weights :: "npfloat ndarray"
  counts :: "int8 ndarray"

text \<open>Line 227: \<^verbatim>\<open>areas[areas == 0] = 10000000\<close>.\<close>

definition zero_area_fix :: "npfloat ndarray \<Rightarrow> npfloat ndarray" where
  "zero_area_fix areas = map_array (\<lambda>a. if a = Fin 0 then Fin 10000000 else a) areas"

text \<open>
  Lines 232--237: where the raster goes in the output grid, as the row slice and the
  column slice of lines 239--241. The loop of line 216 unpacks a corner record as
  \<^verbatim>\<open>fi, x_max, x_min, y_max, y_min\<close>.
\<close>

definition placement ::
  "real \<Rightarrow> real \<Rightarrow> real \<Rightarrow> real \<Rightarrow> corner \<Rightarrow> nat \<Rightarrow> nat \<Rightarrow> py_error + (int \<times> int) \<times> (int \<times> int)" where
  "placement ulx uly pixel_size_x pixel_size_y c x_size y_size =
     (case c of (fi, x_max, x_min, y_max, y_min) \<Rightarrow>
        if pixel_size_x = 0 \<or> pixel_size_y = 0 then Inl ZeroDivisionError
        else
          (let out_loc_x = (x_max - ulx) / pixel_size_x;
               out_loc_y = (y_min - uly) / pixel_size_y;
               end_loc_x = out_loc_x + real x_size;
               end_loc_y = out_loc_y + real y_size
           in Inr ((py_int out_loc_y, py_int end_loc_y), (py_int out_loc_x, py_int end_loc_x))))"

text \<open>
  Lines 239--241, on the area grid after line 227; \<open>dta\<close> and \<open>dtv\<close> are the types of
  the area array and of the value array. \<^verbatim>\<open>values * 1.0/areas\<close> is
  \<^verbatim>\<open>(values * 1.0) / areas\<close>: the product is an array of the type of \<^verbatim>\<open>values\<close>, the
  quotient is computed in the common type of the two arrays, and \<^verbatim>\<open>1.0/areas\<close> in the
  type of \<^verbatim>\<open>areas\<close>. The two \<^verbatim>\<open>+=\<close> add in the type of the grids, \<^verbatim>\<open>float64\<close>, to which
  a \<^verbatim>\<open>float32\<close> number converts without rounding.
\<close>

definition accumulate ::
  "grids \<Rightarrow> int \<times> int \<Rightarrow> int \<times> int \<Rightarrow> dtype \<Rightarrow> npfloat ndarray \<Rightarrow> dtype \<Rightarrow> npfloat ndarray
     \<Rightarrow> py_error + grids" where
  "accumulate g rs cs dta areas dtv vals =
     (case broadcast2 (np_div (result_type dtv dta))
             (map_array (\<lambda>v. np_mul dtv v (Fin 1)) vals) areas of
        Inl e \<Rightarrow> Inl e
      | Inr q \<Rightarrow>
     (case iadd_slice (np_add Float64) (outputs g) rs cs q of
        Inl e \<Rightarrow> Inl e
      | Inr outputs' \<Rightarrow>
     (case iadd_slice (np_add Float64) (weights g) rs cs (map_array (np_div dta (Fin 1)) areas) of
        Inl e \<Rightarrow> Inl e
      | Inr weights' \<Rightarrow>
          Inr \<lparr>outputs = outputs', weights = weights',
               counts = iadd_slice_scalar (+) (counts g) rs cs 1\<rparr>)))"

text \<open>
  What the loop did for one raster, kept beside the program's own state so that the
  properties below can speak about it: the file, the two slices, and the two arrays
  as they were read (the area array before line 227), each with its type.
\<close>

record placed =
  src :: fname
  row_slice :: "int \<times> int"
  col_slice :: "int \<times> int"
  areas_dtype :: dtype
  areas_read :: "npfloat ndarray"
  values_dtype :: dtype
  values_read :: "npfloat ndarray"

text \<open>
  The body of the loop of lines 216--245 for one corner record. The state is the three
  grids, the variables \<^verbatim>\<open>trans\<close> and \<^verbatim>\<open>proj\<close>, and the record of what was done.
\<close>

type_synonym loop_state = "grids \<times> geotransform \<times> string \<times> placed list"

definition composite_step ::
  "'w ext \<Rightarrow> real \<Rightarrow> real \<Rightarrow> real \<Rightarrow> real \<Rightarrow> corner \<Rightarrow> loop_state \<Rightarrow> (loop_state, 'w) io" where
  "composite_step ext ulx uly pixel_size_x pixel_size_y c st =
     (case st of (g, trans0, proj0, hist) \<Rightarrow>
      if py_in ''VV'' (fst c) then
        io_bind (read_gdal_file ext (py_replace (fst c) ''_flat_VV_reproj'' ''_area_map_reproj''))
          (\<lambda>(xa, ya, ta, pa, dta, areas).
        io_bind (read_gdal_file ext (fst c))
          (\<lambda>(x_size, y_size, trans1, proj1, dtv, vals).
           case placement ulx uly pixel_size_x pixel_size_y c x_size y_size of
             Inl e \<Rightarrow> io_raise e
           | Inr (rs, cs) \<Rightarrow>
          (case accumulate g rs cs dta (zero_area_fix areas) dtv vals of
             Inl e \<Rightarrow> io_raise e
           | Inr g' \<Rightarrow>
               io_bind (write_gdal_file_float ext (''composite_'' @ fst c) trans1 proj1 (outputs g') 0)
                 (\<lambda>u. io_return
                    (g', trans1, proj1,
                     hist @ [\<lparr>src = fst c, row_slice = rs, col_slice = cs,
                              areas_dtype = dta, areas_read = areas,
                              values_dtype = dtv, values_read = vals\<rparr>])))))
      else io_return st)"

fun composite_loop ::
  "'w ext \<Rightarrow> real \<Rightarrow> real \<Rightarrow> real \<Rightarrow> real \<Rightarrow> corner list \<Rightarrow> loop_state \<Rightarrow> (loop_state, 'w) io" where
  "composite_loop ext ulx uly pixel_size_x pixel_size_y [] st = io_return st"
| "composite_loop ext ulx uly pixel_size_x pixel_size_y (c # extents) st =
     io_bind (composite_step ext ulx uly pixel_size_x pixel_size_y c st)
       (composite_loop ext ulx uly pixel_size_x pixel_size_y extents)"

text \<open>Line 247, \<^verbatim>\<open>outputs /= weights\<close>, on two \<^verbatim>\<open>float64\<close> grids of one shape.\<close>

definition divide_by_weights :: "grids \<Rightarrow> npfloat ndarray" where
  "divide_by_weights g =
     \<lparr>nrows = nrows (outputs g), ncols = ncols (outputs g),
      item = (\<lambda>i j. np_div Float64 (item (outputs g) i j) (item (weights g) i j))\<rparr>"

text \<open>Line 252, \<^verbatim>\<open>counts.astype(np.int16)\<close>: the signed value is kept.\<close>

definition astype_int16 :: "int8 ndarray \<Rightarrow> int16 ndarray" where
  "astype_int16 c = map_array scast c"

text \<open>
  \<^verbatim>\<open>make_composite\<close> returns nothing. The model returns what it handed to the two
  writers of lines 251 and 252 (lemma \<open>make_composite_writes\<close> below), and the record of
  the rasters it accumulated.
\<close>

record summary =
  composite :: "npfloat ndarray"
  count_grid :: "int16 ndarray"
  accumulated :: "placed list"

text \<open>
  Line 187 takes \<^verbatim>\<open>len\<close> of the result of \<^verbatim>\<open>reproject_to_median_utm\<close>, which raises
  TypeError on \<^verbatim>\<open>None\<close>; line 188 calls the undefined name \<^verbatim>\<open>exception\<close>.
\<close>

definition make_composite ::
  "'w ext \<Rightarrow> fname \<Rightarrow> fname list option \<Rightarrow> string option \<Rightarrow> string option \<Rightarrow> real option
     \<Rightarrow> (summary, 'w) io" where
  "make_composite ext outfile infiles path requested_pol resolution =
     io_bind (establish_infiles ext infiles path
                (case requested_pol of None \<Rightarrow> ''VV'' | Some p \<Rightarrow> p)) (\<lambda>files.
     io_bind (reproject_to_median_utm ext files resolution) (\<lambda>resampled.
       case resampled of
         None \<Rightarrow> io_raise TypeError
       | Some resampled_files \<Rightarrow>
           if length resampled_files = 0 then io_raise NameError
           else
             io_bind (read_gdal_file_geo ext (hd resampled_files)) (\<lambda>(x, y, trans0, proj0).
             io_bind (extents_loop ext resampled_files []) (\<lambda>extents.
               case grid_shape (get_full_extent extents) (gt1 trans0) (gt5 trans0) of
                 Inl e \<Rightarrow> io_raise e
               | Inr (y_pixels, x_pixels) \<Rightarrow>
                   io_bind (composite_loop ext (fst (get_full_extent extents))
                              (fst (snd (snd (get_full_extent extents))))
                              (gt1 trans0) (gt5 trans0) extents
                              (\<lparr>outputs = np_full y_pixels x_pixels (Fin 0),
                                weights = np_full y_pixels x_pixels (Fin 0),
                                counts = np_full y_pixels x_pixels 0\<rparr>, trans0, proj0, []))
                     (\<lambda>(g, trans1, proj1, hist).
                   io_bind (write_gdal_file_float ext outfile trans1 proj1 (divide_by_weights g) 0) (\<lambda>u.
                   io_bind (write_gdal_file ext ''counts.tif'' trans1 proj1 (astype_int16 (counts g))) (\<lambda>u.
                   io_return \<lparr>composite = divide_by_weights g, count_grid = astype_int16 (counts g),
                              accumulated = hist\<rparr>)))))))"

text \<open>
  Whether the raster of a record covers the pixel \<open>(i, j)\<close> of a grid of \<open>h\<close> rows and
  \<open>w\<close> columns, and the samples it brings there.
\<close>

definition covers :: "nat \<Rightarrow> nat \<Rightarrow> placed \<Rightarrow> nat \<Rightarrow> nat \<Rightarrow> bool" where
  "covers h w p i j = (in_slice h (row_slice p) i \<and> in_slice w (col_slice p) j)"

definition sample_at :: "nat \<Rightarrow> nat \<Rightarrow> placed \<Rightarrow> npfloat ndarray \<Rightarrow> nat \<Rightarrow> nat \<Rightarrow> npfloat" where
  "sample_at h w p A i j =
     item A (bc (nrows A) (i - fst (py_slice h (row_slice p))))
            (bc (ncols A) (j - fst (py_slice w (col_slice p))))"

definition area_at :: "nat \<Rightarrow> nat \<Rightarrow> placed \<Rightarrow> nat \<Rightarrow> nat \<Rightarrow> npfloat" where
  "area_at h w p i j = sample_at h w p (areas_read p) i j"

definition value_at :: "nat \<Rightarrow> nat \<Rightarrow> placed \<Rightarrow> nat \<Rightarrow> nat \<Rightarrow> npfloat" where
  "value_at h w p i j = sample_at h w p (values_read p) i j"

text \<open>
  What the raster of a record adds at a pixel it covers: the divisor is the area
  sample after line 227, the term of the value sum is \<^verbatim>\<open>values * 1.0/areas\<close> and the
  term of the weight sum is \<^verbatim>\<open>1.0/areas\<close> (lines 239--240).
\<close>

definition fixed_area_at :: "nat \<Rightarrow> nat \<Rightarrow> placed \<Rightarrow> nat \<Rightarrow> nat \<Rightarrow> npfloat" where
  "fixed_area_at h w p i j = sample_at h w p (zero_area_fix (areas_read p)) i j"

definition value_term :: "nat \<Rightarrow> nat \<Rightarrow> placed \<Rightarrow> nat \<Rightarrow> nat \<Rightarrow> npfloat" where
  "value_term h w p i j =
     np_div (result_type (values_dtype p) (areas_dtype p))
       (np_mul (values_dtype p) (value_at h w p i j) (Fin 1)) (fixed_area_at h w p i j)"

definition weight_term :: "nat \<Rightarrow> nat \<Rightarrow> placed \<Rightarrow> nat \<Rightarrow> nat \<Rightarrow> npfloat" where
  "weight_term h w p i j = np_div (areas_dtype p) (Fin 1) (fixed_area_at h w p i j)"


text \<open>The rasters of a finished run that cover a pixel of its output grid, in the order
  in which they were accumulated.\<close>

definition covering :: "summary \<Rightarrow> nat \<Rightarrow> nat \<Rightarrow> placed list" where
  "covering s i j =
     filter (\<lambda>p. covers (nrows (composite s)) (ncols (composite s)) p i j) (accumulated s)"

text \<open>The three grids have one shape (lines 211--213 create them so).\<close>

definition same_shape :: "grids \<Rightarrow> nat \<Rightarrow> nat \<Rightarrow> bool" where
  "same_shape g h w =
     (nrows (outputs g) = h \<and> ncols (outputs g) = w \<and> nrows (weights g) = h
      \<and> ncols (weights g) = w \<and> nrows (counts g) = h \<and> ncols (counts g) = w)"

text \<open>\<^verbatim>\<open>trans[1]\<close> of what \<^verbatim>\<open>read_gdal_file_geo\<close> returns: the pixel width.\<close>

definition pixel_width :: "nat \<times> nat \<times> geotransform \<times> string \<Rightarrow> real" where
  "pixel_width geo = (case geo of (x, y, t, p) \<Rightarrow> gt1 t)"

subsection \<open>A small file system for the examples\<close>

text \<open>
  The examples below run the model on a concrete outside world: a store of rasters
  by name, and the list of what was written to it. Here a raster's corners follow
  from its geotransform and size, a link or a write to an existing name fails or
  replaces it as the operating system does, and \<open>Warp\<close> keeps the samples of its
  source (no example depends on resampled samples). The general theorems do not use
  this world: they hold for every collaborator. The world keeps an array that is
  written as it was handed over.
\<close>

record raster =
  xsize :: nat
  ysize :: nat
  geot :: geotransform
  wkt :: string
  sample_type :: dtype
  band :: "nat \<Rightarrow> nat \<Rightarrow> npfloat"

datatype event =
  Warped fname fname | Linked fname fname | WroteFloat fname | WroteInt fname

record disk =
  store :: "fname \<Rightarrow> raster option"
  events :: "event list"

definition disk_read :: "fname \<Rightarrow> (raster \<Rightarrow> 'a) \<Rightarrow> ('a, disk) io" where
  "disk_read fi f =
     (\<lambda>d. case store d fi of None \<Rightarrow> (Inl (ExternalError fi), d) | Some r \<Rightarrow> (Inr (f r), d))"

definition disk_put :: "fname \<Rightarrow> raster option \<Rightarrow> event \<Rightarrow> (unit, disk) io" where
  "disk_put fi r e = (\<lambda>d. (Inr (), \<lparr>store = (store d)(fi := r), events = events d @ [e]\<rparr>))"

definition disk_world :: "disk ext" where
  "disk_world =
     \<lparr>GetProjection = (\<lambda>fi. disk_read fi wkt),
      read_gdal_file_geo = (\<lambda>fi. disk_read fi (\<lambda>r. (xsize r, ysize r, geot r, wkt r))),
      read_gdal_file = (\<lambda>fi. disk_read fi (\<lambda>r. (xsize r, ysize r, geot r, wkt r, sample_type r,
                          \<lparr>nrows = ysize r, ncols = xsize r, item = band r\<rparr>))),
      getCorners = (\<lambda>fi. disk_read fi (\<lambda>r.
                          (gt0 (geot r), gt0 (geot r) + real (xsize r) * gt1 (geot r),
                           gt3 (geot r) + real (ysize r) * gt5 (geot r), gt3 (geot r)))),
      Warp = (\<lambda>a. io_bind (disk_read (warp_src a) (\<lambda>r. r))
                     (\<lambda>r. disk_put (warp_dst a) (Some r) (Warped (warp_src a) (warp_dst a)))),
      symlink = (\<lambda>s t d. if store d t \<noteq> None then (Inl FileExistsError, d)
                          else disk_put t (store d s) (Linked s t) d),
      write_gdal_file_float = (\<lambda>fi t p A nodata.
          disk_put fi (Some \<lparr>xsize = ncols A, ysize = nrows A, geot = t, wkt = p,
                             sample_type = Float64, band = item A\<rparr>)
            (WroteFloat fi)),
      write_gdal_file = (\<lambda>fi t p A.
          disk_put fi (Some \<lparr>xsize = ncols A, ysize = nrows A, geot = t, wkt = p,
                             sample_type = Float64,
                             band = (\<lambda>i j. Fin (real_of_int (sint (item A i j))))\<rparr>)
            (WroteInt fi)),
      glob = (\<lambda>p pol. io_return [])\<rparr>"

text \<open>A \<^verbatim>\<open>float32\<close> raster of one pixel with unit pixel size, in UTM zone 10 north.\<close>

definition pixel_raster :: "real \<Rightarrow> real \<Rightarrow> npfloat \<Rightarrow> raster" where
  "pixel_raster x0 y0 v =
     \<lparr>xsize = 1, ysize = 1,
      geot = \<lparr>gt0 = x0, gt1 = 1, gt2 = 0, gt3 = y0, gt4 = 0, gt5 = - 1\<rparr>,
      wkt = ''WGS 84 / UTM zone 10N'', sample_type = Float32, band = (\<lambda>i j. v)\<rparr>"

definition disk_of :: "(fname \<times> raster) list \<Rightarrow> disk" where
  "disk_of files = \<lparr>store = map_of files, events = []\<rparr>"

text \<open>Two rasters on the same pixel: values 10 and 20, areas 1 and 4.\<close>

definition overlap_disk :: disk where
  "overlap_disk = disk_of
     [(''a_flat_VV.tif'', pixel_raster 0 1 (Fin 10)), (''a_area_map.tif'', pixel_raster 0 1 (Fin 1)),
      (''b_flat_VV.tif'', pixel_raster 0 1 (Fin 20)), (''b_area_map.tif'', pixel_raster 0 1 (Fin 4))]"



text \<open>Two rasters that touch at a corner: the union holds two pixels that neither covers.\<close>

definition diagonal_disk :: disk where
  "diagonal_disk = disk_of
     [(''a_flat_VV.tif'', pixel_raster 0 2 (Fin 10)), (''a_area_map.tif'', pixel_raster 0 2 (Fin 1)),
      (''b_flat_VV.tif'', pixel_raster 1 1 (Fin 20)), (''b_area_map.tif'', pixel_raster 1 1 (Fin 4))]"

text \<open>Two rasters side by side whose northings are below 0.\<close>

definition south_disk :: disk where
  "south_disk = disk_of
     [(''a_flat_VV.tif'', pixel_raster 0 (- 1) (Fin 10)), (''a_area_map.tif'', pixel_raster 0 (- 1) (Fin 1)),
      (''b_flat_VV.tif'', pixel_raster 1 (- 1) (Fin 20)), (''b_area_map.tif'', pixel_raster 1 (- 1) (Fin 4))]"

text \<open>One raster of the polarization VV with its area map, and one raster of the
  polarization VH.\<close>

definition mixed_disk :: disk where
  "mixed_disk = disk_of
     [(''a_flat_VV.tif'', pixel_raster 0 1 (Fin 10)), (''a_area_map.tif'', pixel_raster 0 1 (Fin 1)),
      (''b_flat_VH.tif'', pixel_raster 0 1 (Fin 20))]"

text \<open>One raster whose area sample is 0, as the loop of line 216 finds it.\<close>

definition zero_area_disk :: disk where
  "zero_area_disk = disk_of
     [(''z_flat_VV_reproj.tif'', pixel_raster 0 1 (Fin 5)),
      (''z_area_map_reproj.tif'', pixel_raster 0 1 (Fin 0))]"

text \<open>Two rasters of the polarization VH with their area maps.\<close>

definition vh_disk :: disk where
  "vh_disk = disk_of
     [(''a_flat_VH.tif'', pixel_raster 0 1 (Fin 10)), (''a_area_map.tif'', pixel_raster 0 1 (Fin 1)),
      (''b_flat_VH.tif'', pixel_raster 0 1 (Fin 20)), (''b_area_map.tif'', pixel_raster 0 1 (Fin 4))]"

text \<open>A square raster of \<open>n\<close> by \<open>n\<close> pixels of size \<open>px\<close>, in UTM zone 10 north.\<close>

definition square_raster :: "nat \<Rightarrow> real \<Rightarrow> raster" where
  "square_raster n px =
     \<lparr>xsize = n, ysize = n,
      geot = \<lparr>gt0 = 500000, gt1 = px, gt2 = 0, gt3 = 4000000, gt4 = 0, gt5 = - px\<rparr>,
      wkt = ''WGS 84 / UTM zone 10N'', sample_type = Float32, band = (\<lambda>i j. Fin 1)\<rparr>"

text \<open>Two rasters of 5000 by 5000 pixels of 10 m: finer than a target of 30 m.\<close>

definition fine_disk :: disk where
  "fine_disk = disk_of
     [(''a_flat_VV.tif'', square_raster 5000 10), (''a_area_map.tif'', square_raster 5000 10),
      (''b_flat_VV.tif'', square_raster 5000 10), (''b_area_map.tif'', square_raster 5000 10)]"

text \<open>Two rasters of 20 by 20 pixels of 30 m: their pixel size is the target itself.\<close>

definition coarse_disk :: disk where
  "coarse_disk = disk_of
     [(''a_flat_VV.tif'', square_raster 20 30), (''a_area_map.tif'', square_raster 20 30),
      (''b_flat_VV.tif'', square_raster 20 30), (''b_area_map.tif'', square_raster 20 30)]"

text \<open>
  A world without state in which every name is the same \<^verbatim>\<open>float32\<close> raster of one
  pixel, with value 1 and area 1, and every write succeeds: a stack of rasters on one
  pixel.
\<close>

definition unit_transform :: geotransform where
  "unit_transform = \<lparr>gt0 = 0, gt1 = 1, gt2 = 0, gt3 = 1, gt4 = 0, gt5 = - 1\<rparr>"

definition stack_world :: "unit ext" where
  "stack_world =
     \<lparr>GetProjection = (\<lambda>fi. io_return ''WGS 84 / UTM zone 10N''),
      read_gdal_file_geo = (\<lambda>fi. io_return (1, 1, unit_transform, ''WGS 84 / UTM zone 10N'')),
      read_gdal_file = (\<lambda>fi. io_return (1, 1, unit_transform, ''WGS 84 / UTM zone 10N'',
                                          Float32, np_full 1 1 (Fin 1))),
      getCorners = (\<lambda>fi. io_return (0, 1, 0, 1)),
      Warp = (\<lambda>a. io_return ()),
      symlink = (\<lambda>s t. io_return ()),
      write_gdal_file_float = (\<lambda>fi t p A nodata. io_return ()),
      write_gdal_file = (\<lambda>fi t p A. io_return ()),
      glob = (\<lambda>p pol. io_return [])\<rparr>"

subsection \<open>Properties of the extent unifier\<close>

lemma Min_insert_min:
  fixes a :: real
  assumes "finite S"
  shows "Min (insert (min x a) S) = Min (insert a (insert x S))"
proof (cases "S = {}")
  case True
  then show ?thesis by (simp add: min.commute)
next
  case False
  with assms show ?thesis
    by (simp add: min.assoc min.commute min.left_commute)
qed

lemma Max_insert_max:
  fixes a :: real
  assumes "finite S"
  shows "Max (insert (max x a) S) = Max (insert a (insert x S))"
proof (cases "S = {}")
  case True
  then show ?thesis by (simp add: max.commute)
next
  case False
  with assms show ?thesis
    by (simp add: max.assoc max.commute max.left_commute)
qed

lemma corner_projections:
  "min_x (fi, ulx, lrx, lry, uly) = ulx" "max_x (fi, ulx, lrx, lry, uly) = lrx"
  "min_y (fi, ulx, lrx, lry, uly) = lry" "max_y (fi, ulx, lrx, lry, uly) = uly"
  by (simp_all add: min_x_def max_x_def min_y_def max_y_def)

lemma extent_loop_closed_form:
  "extent_loop cs (a, b, c, d) =
     (Min (insert a (min_x ` set cs)), Max (insert b (max_x ` set cs)),
      Max (insert c (max_y ` set cs)), Min (insert d (min_y ` set cs)))"
proof (induction cs arbitrary: a b c d)
  case Nil
  show ?case by simp
next
  case (Cons k cs)
  obtain fi ulx lrx lry uly where k: "k = (fi, ulx, lrx, lry, uly)"
    by (cases k) auto
  have step: "extent_loop (k # cs) (a, b, c, d) =
      extent_loop cs (min ulx a, max lrx b, max uly c, min lry d)"
    by (simp add: k)
  show ?case
    unfolding step Cons.IH
    by (simp only: k list.set image_insert corner_projections
        Min_insert_min Max_insert_max finite_imageI finite_set)
qed

lemma get_full_extent_closed_form:
  "get_full_extent cs =
     (Min (insert 50000000 (min_x ` set cs)), Max (insert 0 (max_x ` set cs)),
      Max (insert 0 (max_y ` set cs)), Min (insert 50000000 (min_y ` set cs)))"
  by (simp add: get_full_extent_def extent_loop_closed_form)

lemma Min_insert_above:
  fixes S :: "real set"
  assumes "finite S" and "x \<in> S" and "x \<le> a"
  shows "Min (insert a S) = Min S"
proof -
  have ne: "S \<noteq> {}" using assms(2) by auto
  have "Min S \<le> a" using assms by (meson Min_le order_trans)
  moreover have "Min (insert a S) = min a (Min S)"
    using assms(1) ne by (rule Min_insert)
  ultimately show ?thesis by (simp add: min_def)
qed

lemma Max_insert_below:
  fixes S :: "real set"
  assumes "finite S" and "x \<in> S" and "a \<le> x"
  shows "Max (insert a S) = Max S"
proof -
  have ne: "S \<noteq> {}" using assms(2) by auto
  have "a \<le> Max S" using assms by (meson Max_ge order_trans)
  moreover have "Max (insert a S) = max a (Max S)"
    using assms(1) ne by (rule Max_insert)
  ultimately show ?thesis by (simp add: max_def)
qed

text \<open>
  Where some record reaches each of the four seeds of lines 55--58, the loop returns the
  union of the corner records.
\<close>

lemma get_full_extent_within_seeds:
  assumes "\<exists>c \<in> set cs. min_x c \<le> 50000000" and "\<exists>c \<in> set cs. 0 \<le> max_x c"
    and "\<exists>c \<in> set cs. 0 \<le> max_y c" and "\<exists>c \<in> set cs. min_y c \<le> 50000000"
  shows "get_full_extent cs =
     (Min (min_x ` set cs), Max (max_x ` set cs), Max (max_y ` set cs), Min (min_y ` set cs))"
proof -
  have a: "Min (insert 50000000 (min_x ` set cs)) = Min (min_x ` set cs)"
    using assms(1) by (auto intro: Min_insert_above)
  have b: "Max (insert 0 (max_x ` set cs)) = Max (max_x ` set cs)"
    using assms(2) by (auto intro: Max_insert_below)
  have c: "Max (insert 0 (max_y ` set cs)) = Max (max_y ` set cs)"
    using assms(3) by (auto intro: Max_insert_below)
  have d: "Min (insert 50000000 (min_y ` set cs)) = Min (min_y ` set cs)"
    using assms(4) by (auto intro: Min_insert_above)
  show ?thesis
    by (simp only: get_full_extent_closed_form a b c d)
qed

text \<open>
  Claim C7: \<open>get_full_extent\<close> returns the same extent on a list of corner records and
  on every permutation of it, and so does the shape of the output grid computed from
  the extent (lines 206--207).
\<close>

theorem get_full_extent_permutation:
  assumes "mset cs' = mset cs"
  shows "get_full_extent cs' = get_full_extent cs
     \<and> grid_shape (get_full_extent cs') pixel_size_x pixel_size_y
         = grid_shape (get_full_extent cs) pixel_size_x pixel_size_y"
proof -
  have "set cs' = set cs" using assms by (rule mset_eq_setD)
  then have "get_full_extent cs' = get_full_extent cs"
    by (simp only: get_full_extent_closed_form)
  then show ?thesis by simp
qed

theorem get_full_extent_permutation_witness:
  "get_full_extent [(''b.tif'', 150, 250, 350, 450), (''a.tif'', 100, 200, 300, 400)]
     = get_full_extent [(''a.tif'', 100, 200, 300, 400), (''b.tif'', 150, 250, 350, 450)]
   \<and> grid_shape (get_full_extent [(''b.tif'', 150, 250, 350, 450), (''a.tif'', 100, 200, 300, 400)]) 10 (- 10)
     = Inr (15, 15)"
  using get_full_extent_permutation [of "[(''b.tif'', 150, 250, 350, 450), (''a.tif'', 100, 200, 300, 400)]"
      "[(''a.tif'', 100, 200, 300, 400), (''b.tif'', 150, 250, 350, 450)]" 10 "- 10"]
  by (simp add: get_full_extent_def grid_shape_def py_int_def)

text \<open>
  \<open>make_composite\<close> sorts its list of input files (line 182), so the whole run does not
  depend on the order in which the files are given.
\<close>

lemma make_composite_order:
  assumes "mset fs' = mset fs"
  shows "make_composite ext outfile (Some fs') path pol res
           = make_composite ext outfile (Some fs) path pol res"
proof -
  have "sort fs' = sort fs"
    using assms by (metis properties_for_sort sorted_sort mset_sort)
  then show ?thesis
    by (simp add: make_composite_def establish_infiles_def split: option.splits)
qed

subsection \<open>Reasoning about the collaborators' monad\<close>

lemma io_bind_Inr:
  assumes "io_bind m f w = (Inr b, w'')"
  obtains a w' where "m w = (Inr a, w')" and "f a w' = (Inr b, w'')"
  using assms by (auto simp: io_bind_def split: prod.splits sum.splits)

subsection \<open>One raster\<close>

lemma bdim_one: "bdim a b = Some r \<Longrightarrow> bc a (bc r k) = bc a k \<and> bc b (bc r k) = bc b k"
  by (auto simp: bdim_def bc_def split: if_splits)

lemma map_array_sel [simp]:
  "nrows (map_array f A) = nrows A" "ncols (map_array f A) = ncols A"
  "item (map_array f A) i j = f (item A i j)"
  by (simp_all add: map_array_def)

lemma np_full_sel [simp]:
  "nrows (np_full h w z) = h" "ncols (np_full h w z) = w" "item (np_full h w z) i j = z"
  by (simp_all add: np_full_def)

lemma iadd_slice_scalar_sel [simp]:
  "nrows (iadd_slice_scalar f T rs cs x) = nrows T"
  "ncols (iadd_slice_scalar f T rs cs x) = ncols T"
  "item (iadd_slice_scalar f T rs cs x) i j =
     (if in_slice (nrows T) rs i \<and> in_slice (ncols T) cs j then f (item T i j) x else item T i j)"
  by (simp_all add: iadd_slice_scalar_def)

lemma iadd_slice_Inr:
  assumes "iadd_slice f T rs cs V = Inr T'"
  shows "nrows T' = nrows T" and "ncols T' = ncols T"
    and "item T' i j =
      (if in_slice (nrows T) rs i \<and> in_slice (ncols T) cs j
       then f (item T i j) (item V (bc (nrows V) (i - fst (py_slice (nrows T) rs)))
                                   (bc (ncols V) (j - fst (py_slice (ncols T) cs))))
       else item T i j)"
  using assms by (auto simp: iadd_slice_def split: if_splits)

lemma broadcast2_Inr:
  assumes "broadcast2 f A B = Inr Q"
  shows "item Q (bc (nrows Q) k) (bc (ncols Q) l) =
           f (item A (bc (nrows A) k) (bc (ncols A) l)) (item B (bc (nrows B) k) (bc (ncols B) l))"
proof -
  from assms obtain r c where r: "bdim (nrows A) (nrows B) = Some r"
    and c: "bdim (ncols A) (ncols B) = Some c"
    and Q: "Q = \<lparr>nrows = r, ncols = c,
        item = (\<lambda>i j. f (item A (bc (nrows A) i) (bc (ncols A) j))
                         (item B (bc (nrows B) i) (bc (ncols B) j)))\<rparr>"
    by (auto simp: broadcast2_def split: option.splits)
  show ?thesis
    using bdim_one [OF r, of k] bdim_one [OF c, of l] by (simp add: Q)
qed

lemma accumulate_pixel:
  assumes acc: "accumulate g rs cs dta areas dtv vals = Inr g'" and sh: "same_shape g h w"
  shows "same_shape g' h w"
    and "item (outputs g') i j =
      (if in_slice h rs i \<and> in_slice w cs j
       then np_add Float64 (item (outputs g) i j)
              (np_div (result_type dtv dta)
                 (np_mul dtv (item vals (bc (nrows vals) (i - fst (py_slice h rs)))
                                        (bc (ncols vals) (j - fst (py_slice w cs)))) (Fin 1))
                 (item areas (bc (nrows areas) (i - fst (py_slice h rs)))
                             (bc (ncols areas) (j - fst (py_slice w cs)))))
       else item (outputs g) i j)"
    and "item (weights g') i j =
      (if in_slice h rs i \<and> in_slice w cs j
       then np_add Float64 (item (weights g) i j)
              (np_div dta (Fin 1) (item areas (bc (nrows areas) (i - fst (py_slice h rs)))
                                              (bc (ncols areas) (j - fst (py_slice w cs)))))
       else item (weights g) i j)"
    and "item (counts g') i j =
      (if in_slice h rs i \<and> in_slice w cs j then item (counts g) i j + 1 else item (counts g) i j)"
proof -
  from acc obtain q o' w' where
    q: "broadcast2 (np_div (result_type dtv dta)) (map_array (\<lambda>v. np_mul dtv v (Fin 1)) vals) areas
          = Inr q"
    and o': "iadd_slice (np_add Float64) (outputs g) rs cs q = Inr o'"
    and w': "iadd_slice (np_add Float64) (weights g) rs cs (map_array (np_div dta (Fin 1)) areas)
          = Inr w'"
    and g': "g' = \<lparr>outputs = o', weights = w', counts = iadd_slice_scalar (+) (counts g) rs cs 1\<rparr>"
    by (auto simp: accumulate_def split: sum.splits)
  have shape: "nrows (outputs g) = h" "ncols (outputs g) = w" "nrows (weights g) = h"
    "ncols (weights g) = w" "nrows (counts g) = h" "ncols (counts g) = w"
    using sh by (simp_all add: same_shape_def)
  show "same_shape g' h w"
    by (simp add: same_shape_def g' iadd_slice_Inr(1,2) [OF o'] iadd_slice_Inr(1,2) [OF w'] shape)
  show "item (outputs g') i j =
      (if in_slice h rs i \<and> in_slice w cs j
       then np_add Float64 (item (outputs g) i j)
              (np_div (result_type dtv dta)
                 (np_mul dtv (item vals (bc (nrows vals) (i - fst (py_slice h rs)))
                                        (bc (ncols vals) (j - fst (py_slice w cs)))) (Fin 1))
                 (item areas (bc (nrows areas) (i - fst (py_slice h rs)))
                             (bc (ncols areas) (j - fst (py_slice w cs)))))
       else item (outputs g) i j)"
    using broadcast2_Inr [OF q, of "i - fst (py_slice h rs)" "j - fst (py_slice w cs)"]
    by (simp add: g' iadd_slice_Inr(3) [OF o'] shape)
  show "item (weights g') i j =
      (if in_slice h rs i \<and> in_slice w cs j
       then np_add Float64 (item (weights g) i j)
              (np_div dta (Fin 1) (item areas (bc (nrows areas) (i - fst (py_slice h rs)))
                                              (bc (ncols areas) (j - fst (py_slice w cs)))))
       else item (weights g) i j)"
    by (simp add: g' iadd_slice_Inr(3) [OF w'] shape)
  show "item (counts g') i j =
      (if in_slice h rs i \<and> in_slice w cs j then item (counts g) i j + 1 else item (counts g) i j)"
    by (simp add: g' shape)
qed


subsection \<open>The loop over the rasters\<close>

lemma composite_step_Inr:
  assumes step: "composite_step ext ulx uly px py c (g, t, pr, hist) w0
                   = (Inr (g', t', pr', hist'), w1)"
    and sh: "same_shape g h w"
  shows "same_shape g' h w \<and> (\<exists>new. hist' = hist @ new \<and> (\<forall>i j.
      item (outputs g') i j =
        foldl (np_add Float64) (item (outputs g) i j)
          (map (\<lambda>p. value_term h w p i j) (filter (\<lambda>p. covers h w p i j) new))
    \<and> item (weights g') i j =
        foldl (np_add Float64) (item (weights g) i j)
          (map (\<lambda>p. weight_term h w p i j) (filter (\<lambda>p. covers h w p i j) new))
    \<and> item (counts g') i j =
        item (counts g) i j + of_nat (length (filter (\<lambda>p. covers h w p i j) new))))"
proof (cases "py_in ''VV'' (fst c)")
  case False
  with step have "g' = g" "hist' = hist"
    by (simp_all add: composite_step_def io_return_def)
  with sh show ?thesis by simp
next
  case True
  from step True obtain areas vals rs cs dta dtv where
    acc: "accumulate g rs cs dta (zero_area_fix areas) dtv vals = Inr g'"
    and hist': "hist' = hist @ [\<lparr>src = fst c, row_slice = rs, col_slice = cs,
                              areas_dtype = dta, areas_read = areas,
                              values_dtype = dtv, values_read = vals\<rparr>]"
    by (auto simp: composite_step_def io_return_def io_raise_def
        elim!: io_bind_Inr split: sum.splits prod.splits)
  define p where "p = \<lparr>src = fst c, row_slice = rs, col_slice = cs,
                              areas_dtype = dta, areas_read = areas,
                              values_dtype = dtv, values_read = vals\<rparr>"
  have res: "hist' = hist @ [p]"
    by (simp add: hist' p_def)
  note px = accumulate_pixel [OF acc sh]
  have cov: "covers h w p i j = (in_slice h rs i \<and> in_slice w cs j)" for i j
    by (simp add: covers_def p_def)
  have vt: "value_term h w p i j =
      np_div (result_type dtv dta)
             (np_mul dtv (item vals (bc (nrows vals) (i - fst (py_slice h rs)))
                                    (bc (ncols vals) (j - fst (py_slice w cs)))) (Fin 1))
             (item (zero_area_fix areas) (bc (nrows (zero_area_fix areas)) (i - fst (py_slice h rs)))
                                         (bc (ncols (zero_area_fix areas)) (j - fst (py_slice w cs))))" for i j
    by (simp add: value_term_def value_at_def fixed_area_at_def sample_at_def p_def)
  have wt: "weight_term h w p i j =
      np_div dta (Fin 1)
             (item (zero_area_fix areas) (bc (nrows (zero_area_fix areas)) (i - fst (py_slice h rs)))
                                         (bc (ncols (zero_area_fix areas)) (j - fst (py_slice w cs))))" for i j
    by (simp add: weight_term_def fixed_area_at_def sample_at_def p_def)
  have "\<forall>i j.
      item (outputs g') i j =
        foldl (np_add Float64) (item (outputs g) i j)
          (map (\<lambda>p. value_term h w p i j) (filter (\<lambda>p. covers h w p i j) [p]))
    \<and> item (weights g') i j =
        foldl (np_add Float64) (item (weights g) i j)
          (map (\<lambda>p. weight_term h w p i j) (filter (\<lambda>p. covers h w p i j) [p]))
    \<and> item (counts g') i j =
        item (counts g) i j + of_nat (length (filter (\<lambda>p. covers h w p i j) [p]))"
    by (simp add: px(2,3,4) cov vt wt)
  with px(1) res show ?thesis by blast
qed


lemma composite_loop_Inr:
  assumes "composite_loop ext ulx uly px py exts (g, t, pr, hist) w0
             = (Inr (g', t', pr', hist'), w1)"
    and "same_shape g h w"
  shows "same_shape g' h w \<and> (\<exists>new. hist' = hist @ new \<and> (\<forall>i j.
      item (outputs g') i j =
        foldl (np_add Float64) (item (outputs g) i j)
          (map (\<lambda>p. value_term h w p i j) (filter (\<lambda>p. covers h w p i j) new))
    \<and> item (weights g') i j =
        foldl (np_add Float64) (item (weights g) i j)
          (map (\<lambda>p. weight_term h w p i j) (filter (\<lambda>p. covers h w p i j) new))
    \<and> item (counts g') i j =
        item (counts g) i j + of_nat (length (filter (\<lambda>p. covers h w p i j) new))))"
  using assms
proof (induction exts arbitrary: g t pr hist w0)
  case Nil
  then have "g' = g" "hist' = hist"
    by (simp_all add: io_return_def)
  with Nil.prems(2) show ?case by simp
next
  case (Cons c exts)
  from Cons.prems(1) obtain st1 wm where
    step: "composite_step ext ulx uly px py c (g, t, pr, hist) w0 = (Inr st1, wm)"
    and rest: "composite_loop ext ulx uly px py exts st1 wm = (Inr (g', t', pr', hist'), w1)"
    by (auto elim: io_bind_Inr)
  obtain g1 t1 pr1 hist1 where st1: "st1 = (g1, t1, pr1, hist1)"
    by (cases st1) auto
  from composite_step_Inr [OF step [unfolded st1] Cons.prems(2)]
  obtain new1 where sh1: "same_shape g1 h w" and h1: "hist1 = hist @ new1"
    and p1: "\<And>i j. item (outputs g1) i j =
        foldl (np_add Float64) (item (outputs g) i j)
          (map (\<lambda>p. value_term h w p i j) (filter (\<lambda>p. covers h w p i j) new1))"
      "\<And>i j. item (weights g1) i j =
        foldl (np_add Float64) (item (weights g) i j)
          (map (\<lambda>p. weight_term h w p i j) (filter (\<lambda>p. covers h w p i j) new1))"
      "\<And>i j. item (counts g1) i j =
        item (counts g) i j + of_nat (length (filter (\<lambda>p. covers h w p i j) new1))"
    by blast
  from Cons.IH [OF rest [unfolded st1] sh1]
  obtain new2 where sh2: "same_shape g' h w" and h2: "hist' = hist1 @ new2"
    and p2: "\<And>i j. item (outputs g') i j =
        foldl (np_add Float64) (item (outputs g1) i j)
          (map (\<lambda>p. value_term h w p i j) (filter (\<lambda>p. covers h w p i j) new2))"
      "\<And>i j. item (weights g') i j =
        foldl (np_add Float64) (item (weights g1) i j)
          (map (\<lambda>p. weight_term h w p i j) (filter (\<lambda>p. covers h w p i j) new2))"
      "\<And>i j. item (counts g') i j =
        item (counts g1) i j + of_nat (length (filter (\<lambda>p. covers h w p i j) new2))"
    by blast
  have "hist' = hist @ (new1 @ new2)"
    by (simp add: h1 h2)
  moreover have "\<forall>i j.
      item (outputs g') i j =
        foldl (np_add Float64) (item (outputs g) i j)
          (map (\<lambda>p. value_term h w p i j) (filter (\<lambda>p. covers h w p i j) (new1 @ new2)))
    \<and> item (weights g') i j =
        foldl (np_add Float64) (item (weights g) i j)
          (map (\<lambda>p. weight_term h w p i j) (filter (\<lambda>p. covers h w p i j) (new1 @ new2)))
    \<and> item (counts g') i j =
        item (counts g) i j + of_nat (length (filter (\<lambda>p. covers h w p i j) (new1 @ new2)))"
    by (simp add: p1 p2)
  ultimately show ?case using sh2 by blast
qed

text \<open>What a finished run hands to its two writers, pixel by pixel.\<close>

lemma make_composite_pixel:
  assumes run: "make_composite ext outfile infiles path pol res w0 = (Inr s, w1)"
  shows "item (composite s) i j =
      np_div Float64 (foldl (np_add Float64) (Fin 0)
                (map (\<lambda>p. value_term (nrows (composite s)) (ncols (composite s)) p i j) (covering s i j)))
             (foldl (np_add Float64) (Fin 0)
                (map (\<lambda>p. weight_term (nrows (composite s)) (ncols (composite s)) p i j) (covering s i j)))"
    and "item (count_grid s) i j = scast (of_nat (length (covering s i j)) :: int8)"
proof -
  from run obtain ulx uly px py exts y x t0 pr0 wa g t1 pr1 hist wb where
    loop: "composite_loop ext ulx uly px py exts
        (\<lparr>outputs = np_full y x (Fin 0), weights = np_full y x (Fin 0), counts = np_full y x 0\<rparr>,
         t0, pr0, []) wa = (Inr (g, t1, pr1, hist), wb)"
    and s: "s = \<lparr>composite = divide_by_weights g, count_grid = astype_int16 (counts g),
                 accumulated = hist\<rparr>"
    by (auto simp: make_composite_def io_return_def io_raise_def
        elim!: io_bind_Inr split: sum.splits prod.splits option.splits if_splits)
  have sh0: "same_shape \<lparr>outputs = np_full y x (Fin 0), weights = np_full y x (Fin 0),
                         counts = np_full y x 0\<rparr> y x"
    by (simp add: same_shape_def)
  from composite_loop_Inr [OF loop sh0]
  have sh: "same_shape g y x"
    and px: "\<And>i j. item (outputs g) i j =
        foldl (np_add Float64) (Fin 0) (map (\<lambda>p. value_term y x p i j) (filter (\<lambda>p. covers y x p i j) hist))"
      "\<And>i j. item (weights g) i j =
        foldl (np_add Float64) (Fin 0) (map (\<lambda>p. weight_term y x p i j) (filter (\<lambda>p. covers y x p i j) hist))"
      "\<And>i j. item (counts g) i j = of_nat (length (filter (\<lambda>p. covers y x p i j) hist))"
    by auto
  have dims: "nrows (composite s) = y" "ncols (composite s) = x"
    using sh by (simp_all add: s divide_by_weights_def same_shape_def)
  have cov: "covering s i j = filter (\<lambda>p. covers y x p i j) hist"
    by (simp add: covering_def dims) (simp add: s)
  show "item (composite s) i j =
      np_div Float64 (foldl (np_add Float64) (Fin 0)
                (map (\<lambda>p. value_term (nrows (composite s)) (ncols (composite s)) p i j) (covering s i j)))
             (foldl (np_add Float64) (Fin 0)
                (map (\<lambda>p. weight_term (nrows (composite s)) (ncols (composite s)) p i j) (covering s i j)))"
    unfolding dims cov by (simp add: s divide_by_weights_def px)
  show "item (count_grid s) i j = scast (of_nat (length (covering s i j)) :: int8)"
    unfolding cov by (simp add: s astype_int16_def px)
qed

subsection \<open>The weighted mean\<close>

lemma fixed_area_at_eq:
  "fixed_area_at h w p i j =
     (if area_at h w p i j = Fin 0 then Fin 10000000 else area_at h w p i j)"
  by (simp add: fixed_area_at_def area_at_def sample_at_def zero_area_fix_def)



text \<open>Running the model on the example file systems: the definitions to unfold.\<close>

lemmas model_defs =
  make_composite_def establish_infiles_def reproject_to_median_utm_def target_pixel_size_def
  get_max_pixel_size_def parse_zones_def get_zone_from_proj_def get_hemisphere_def parse_utm_def
  match_here_def is_digit_def int_of_digits_def digit_val_def reproject_one_def zone_differs_def
  np_median_def io_bind_def io_return_def io_raise_def grid_shape_def get_full_extent_def
  composite_step_def placement_def accumulate_def zero_area_fix_def broadcast2_def bdim_def bc_def
  iadd_slice_def iadd_slice_scalar_def py_slice_def norm_index_def in_slice_def map_array_def
  np_full_def divide_by_weights_def astype_int16_def py_int_def Let_def ceiling_minus

lemmas disk_defs = disk_world_def disk_read_def disk_put_def disk_of_def pixel_raster_def


lemmas ieee_defs =
  ieee_round_def binade_def pow2_def round_half_even_def precision_def emin_def emax_def
  bit_length.simps Let_def

text \<open>
  The rounding at some numbers: a tenth in \<^verbatim>\<open>float64\<close>; in \<^verbatim>\<open>float32\<close>, the integers next
  to \<open>2\<^sup>2\<^sup>4\<close>, where a tie goes to the even significand, the greatest number of the type
  and the overflow beyond it, and the subnormal numbers at the other end.
\<close>

lemma ieee_round_examples:
  "ieee_round Float64 (1 / 10) = Fin (3602879701896397 / 36028797018963968)"
  "ieee_round Float32 16777217 = Fin 16777216"
  "ieee_round Float32 16777219 = Fin 16777220"
  "ieee_round Float32 (2 ^ 128 - 2 ^ 104) = Fin (2 ^ 128 - 2 ^ 104)"
  "ieee_round Float32 (2 ^ 128 - 2 ^ 103) = PInf"
  "ieee_round Float32 (- (2 ^ 128)) = NInf"
  "ieee_round Float32 (1 / 2 ^ 149) = Fin (1 / 2 ^ 149)"
  "ieee_round Float32 (3 / 2 ^ 150) = Fin (1 / 2 ^ 148)"
  "ieee_round Float32 (1 / 2 ^ 150) = Fin 0"
  by (simp_all add: ieee_defs)






subsection \<open>Pixels that no raster covers\<close>

lemma uncovered_pixel:
  assumes "make_composite ext outfile infiles path pol res w0 = (Inr s, w1)"
    and "covering s i j = []"
  shows "item (composite s) i j = NaN" and "item (count_grid s) i j = 0"
  using make_composite_pixel [OF assms(1), of i j] assms(2) by simp_all

lemma diagonal_run:
  "\<exists>s d. make_composite disk_world ''out.tif'' (Some [''a_flat_VV.tif'', ''b_flat_VV.tif''])
             None None None diagonal_disk = (Inr s, d)
     \<and> nrows (composite s) = 2 \<and> ncols (composite s) = 2
     \<and> accumulated s =
         [\<lparr>src = ''a_flat_VV_reproj.tif'', row_slice = (0, 1), col_slice = (0, 1),
           areas_dtype = Float32, areas_read = \<lparr>nrows = 1, ncols = 1, item = (\<lambda>i j. Fin 1)\<rparr>,
           values_dtype = Float32, values_read = \<lparr>nrows = 1, ncols = 1, item = (\<lambda>i j. Fin 10)\<rparr>\<rparr>,
          \<lparr>src = ''b_flat_VV_reproj.tif'', row_slice = (1, 2), col_slice = (1, 2),
           areas_dtype = Float32, areas_read = \<lparr>nrows = 1, ncols = 1, item = (\<lambda>i j. Fin 4)\<rparr>,
           values_dtype = Float32, values_read = \<lparr>nrows = 1, ncols = 1, item = (\<lambda>i j. Fin 20)\<rparr>\<rparr>]"
  by (simp add: model_defs disk_defs diagonal_disk_def)

text \<open>
  Claim C2 says that a pixel covered by no raster ends with coverage count 0 and with
  the no-data value 0 in the composite, never NaN. The count is 0, but line 247
  divides the accumulated value 0 by the accumulated weight 0 there, and the NaN that
  results is what \<open>make_composite\<close> hands to the writer: here for two rasters that
  touch at a corner, at the pixel in row 0 and column 1 of the 2 by 2 grid.
\<close>

theorem uncovered_pixel_written_as_nan:
  "\<exists>s d. make_composite disk_world ''out.tif'' (Some [''a_flat_VV.tif'', ''b_flat_VV.tif''])
             None None None diagonal_disk = (Inr s, d)
     \<and> nrows (composite s) = 2 \<and> ncols (composite s) = 2
     \<and> covering s 0 1 = [] \<and> item (count_grid s) 0 1 = 0 \<and> item (composite s) 0 1 = NaN
     \<and> \<not> is_finite (item (composite s) 0 1)"
proof -
  from diagonal_run obtain s d where
    run: "make_composite disk_world ''out.tif'' (Some [''a_flat_VV.tif'', ''b_flat_VV.tif''])
             None None None diagonal_disk = (Inr s, d)"
    and dims: "nrows (composite s) = 2" "ncols (composite s) = 2"
    and acc: "accumulated s =
         [\<lparr>src = ''a_flat_VV_reproj.tif'', row_slice = (0, 1), col_slice = (0, 1),
           areas_dtype = Float32, areas_read = \<lparr>nrows = 1, ncols = 1, item = (\<lambda>i j. Fin 1)\<rparr>,
           values_dtype = Float32, values_read = \<lparr>nrows = 1, ncols = 1, item = (\<lambda>i j. Fin 10)\<rparr>\<rparr>,
          \<lparr>src = ''b_flat_VV_reproj.tif'', row_slice = (1, 2), col_slice = (1, 2),
           areas_dtype = Float32, areas_read = \<lparr>nrows = 1, ncols = 1, item = (\<lambda>i j. Fin 4)\<rparr>,
           values_dtype = Float32, values_read = \<lparr>nrows = 1, ncols = 1, item = (\<lambda>i j. Fin 20)\<rparr>\<rparr>]"
    by blast
  have cov: "covering s 0 1 = []"
    by (simp add: covering_def dims acc covers_def in_slice_def py_slice_def norm_index_def)
  from uncovered_pixel [OF run cov] have "item (composite s) 0 1 = NaN"
    and "item (count_grid s) 0 1 = 0" and "\<not> is_finite (item (composite s) 0 1)"
    by (simp_all add: is_finite_def)
  with run dims cov show ?thesis by blast
qed

subsection \<open>The extent of rasters beyond the seeds\<close>

lemma south_run:
  "\<exists>s d. make_composite disk_world ''out.tif'' (Some [''a_flat_VV.tif'', ''b_flat_VV.tif''])
             None None None south_disk = (Inr s, d)
     \<and> nrows (composite s) = 2 \<and> ncols (composite s) = 2
     \<and> accumulated s =
         [\<lparr>src = ''a_flat_VV_reproj.tif'', row_slice = (1, 2), col_slice = (0, 1),
           areas_dtype = Float32, areas_read = \<lparr>nrows = 1, ncols = 1, item = (\<lambda>i j. Fin 1)\<rparr>,
           values_dtype = Float32, values_read = \<lparr>nrows = 1, ncols = 1, item = (\<lambda>i j. Fin 10)\<rparr>\<rparr>,
          \<lparr>src = ''b_flat_VV_reproj.tif'', row_slice = (1, 2), col_slice = (1, 2),
           areas_dtype = Float32, areas_read = \<lparr>nrows = 1, ncols = 1, item = (\<lambda>i j. Fin 4)\<rparr>,
           values_dtype = Float32, values_read = \<lparr>nrows = 1, ncols = 1, item = (\<lambda>i j. Fin 20)\<rparr>\<rparr>]"
  by (simp add: model_defs disk_defs south_disk_def)

text \<open>
  Claim C6 says that for every non-empty list of corner records \<open>get_full_extent\<close>
  returns (min of all min\_x, max of all max\_x, max of all max\_y, min of all min\_y);
  the docstring of the function says that it calculates the union of the corners. The
  loop does not start from the first record but from the constants 50000000 (the two
  minima) and 0 (the two maxima) of lines 55--58, and a constant stays in the result
  when no record reaches it. For two rasters of one pixel side by side with northings
  below 0, the union is one row of two pixels with its north edge at \<open>-1\<close>; the extent
  returned has its north edge at 0, the output grid of lines 206--207 has two rows, and
  the run leaves the first row covered by no raster. For one raster with eastings above
  50000000 the west edge returned is 50000000.
\<close>

theorem get_full_extent_not_union:
  "get_full_extent [(''a.tif'', 0, 1, - 2, - 1), (''b.tif'', 1, 2, - 2, - 1)] = (0, 2, 0, - 2)
   \<and> (Min (min_x ` set [(''a.tif'', 0, 1, - 2, - 1), (''b.tif'', 1, 2, - 2, - 1)]),
       Max (max_x ` set [(''a.tif'', 0, 1, - 2, - 1), (''b.tif'', 1, 2, - 2, - 1)]),
       Max (max_y ` set [(''a.tif'', 0, 1, - 2, - 1), (''b.tif'', 1, 2, - 2, - 1)]),
       Min (min_y ` set [(''a.tif'', 0, 1, - 2, - 1), (''b.tif'', 1, 2, - 2, - 1)]))
      = (0, 2, - 1, - 2)
   \<and> grid_shape (get_full_extent [(''a.tif'', 0, 1, - 2, - 1), (''b.tif'', 1, 2, - 2, - 1)]) 1 (- 1)
      = Inr (2, 2)
   \<and> grid_shape (0, 2, - 1, - 2) 1 (- 1) = Inr (1, 2)
   \<and> (\<exists>s d. make_composite disk_world ''out.tif'' (Some [''a_flat_VV.tif'', ''b_flat_VV.tif''])
               None None None south_disk = (Inr s, d)
         \<and> nrows (composite s) = 2 \<and> ncols (composite s) = 2
         \<and> covering s 0 0 = [] \<and> covering s 0 1 = []
         \<and> length (covering s 1 0) = 1 \<and> length (covering s 1 1) = 1)
   \<and> get_full_extent [(''c.tif'', 60000000, 60000001, 5, 6)] = (50000000, 60000001, 6, 5)
   \<and> (min_x (''c.tif'', 60000000, 60000001, 5, 6), max_x (''c.tif'', 60000000, 60000001, 5, 6),
       max_y (''c.tif'', 60000000, 60000001, 5, 6), min_y (''c.tif'', 60000000, 60000001, 5, 6))
      = (60000000, 60000001, 6, 5)"
proof -
  from south_run obtain s d where
    run: "make_composite disk_world ''out.tif'' (Some [''a_flat_VV.tif'', ''b_flat_VV.tif''])
             None None None south_disk = (Inr s, d)"
    and dims: "nrows (composite s) = 2" "ncols (composite s) = 2"
    and acc: "accumulated s =
         [\<lparr>src = ''a_flat_VV_reproj.tif'', row_slice = (1, 2), col_slice = (0, 1),
           areas_dtype = Float32, areas_read = \<lparr>nrows = 1, ncols = 1, item = (\<lambda>i j. Fin 1)\<rparr>,
           values_dtype = Float32, values_read = \<lparr>nrows = 1, ncols = 1, item = (\<lambda>i j. Fin 10)\<rparr>\<rparr>,
          \<lparr>src = ''b_flat_VV_reproj.tif'', row_slice = (1, 2), col_slice = (1, 2),
           areas_dtype = Float32, areas_read = \<lparr>nrows = 1, ncols = 1, item = (\<lambda>i j. Fin 4)\<rparr>,
           values_dtype = Float32, values_read = \<lparr>nrows = 1, ncols = 1, item = (\<lambda>i j. Fin 20)\<rparr>\<rparr>]"
    by blast
  have cov: "covering s 0 0 = []" "covering s 0 1 = []"
    "length (covering s 1 0) = 1" "length (covering s 1 1) = 1"
    by (simp_all add: covering_def dims acc covers_def in_slice_def py_slice_def norm_index_def)
  have run_part: "\<exists>s d. make_composite disk_world ''out.tif'' (Some [''a_flat_VV.tif'', ''b_flat_VV.tif''])
               None None None south_disk = (Inr s, d)
         \<and> nrows (composite s) = 2 \<and> ncols (composite s) = 2
         \<and> covering s 0 0 = [] \<and> covering s 0 1 = []
         \<and> length (covering s 1 0) = 1 \<and> length (covering s 1 1) = 1"
    using run dims cov by blast
  have pure_part:
    "get_full_extent [(''a.tif'', 0, 1, - 2, - 1), (''b.tif'', 1, 2, - 2, - 1)] = (0, 2, 0, - 2)"
    "(Min (min_x ` set [(''a.tif'', 0, 1, - 2, - 1), (''b.tif'', 1, 2, - 2, - 1)]),
       Max (max_x ` set [(''a.tif'', 0, 1, - 2, - 1), (''b.tif'', 1, 2, - 2, - 1)]),
       Max (max_y ` set [(''a.tif'', 0, 1, - 2, - 1), (''b.tif'', 1, 2, - 2, - 1)]),
       Min (min_y ` set [(''a.tif'', 0, 1, - 2, - 1), (''b.tif'', 1, 2, - 2, - 1)]))
      = (0, 2, - 1, - 2)"
    "grid_shape (get_full_extent [(''a.tif'', 0, 1, - 2, - 1), (''b.tif'', 1, 2, - 2, - 1)]) 1 (- 1)
      = Inr (2, 2)"
    "grid_shape (0, 2, - 1, - 2) 1 (- 1) = Inr (1, 2)"
    "get_full_extent [(''c.tif'', 60000000, 60000001, 5, 6)] = (50000000, 60000001, 6, 5)"
    "(min_x (''c.tif'', 60000000, 60000001, 5, 6), max_x (''c.tif'', 60000000, 60000001, 5, 6),
       max_y (''c.tif'', 60000000, 60000001, 5, 6), min_y (''c.tif'', 60000000, 60000001, 5, 6))
      = (60000000, 60000001, 6, 5)"
    by (simp_all add: get_full_extent_def corner_projections grid_shape_def py_int_def ceiling_minus)
  from pure_part run_part show ?thesis by blast
qed

subsection \<open>Zero areas\<close>

text \<open>
  Claim C3: in every area grid that the loop reads, a sample equal to 0 is replaced by
  10000000 before the reciprocal is taken (line 227); so at every pixel the raster
  covers the divisor of lines 239--240 is not 0, the value sum grows by
  \<open>value / area\<close> and the weight sum by \<open>1 / area\<close>, and a pixel whose area sample is
  0 adds the weight \<open>1 / 10000000\<close>. The quotients are those of numpy, in the type of
  the raster, and the sums grow by a \<^verbatim>\<open>float64\<close> addition: the weight that a zero area
  adds is the number of the raster's type nearest to \<open>1 / 10000000\<close>.
\<close>

theorem zero_area_sentinel:
  assumes step: "composite_step ext ulx uly px py c (g, t, pr, hist) w0
                   = (Inr (g', t', pr', hist'), w1)"
    and vv: "py_in ''VV'' (fst c)" and sh: "same_shape g h w"
  shows "\<exists>p. hist' = hist @ [p]
     \<and> (\<forall>k l. item (zero_area_fix (areas_read p)) k l =
           (if item (areas_read p) k l = Fin 0 then Fin 10000000 else item (areas_read p) k l))
     \<and> (\<forall>i j. covers h w p i j \<longrightarrow>
           fixed_area_at h w p i j \<noteq> Fin 0
         \<and> item (outputs g') i j =
             np_add Float64 (item (outputs g) i j)
               (np_div (result_type (values_dtype p) (areas_dtype p))
                  (np_mul (values_dtype p) (value_at h w p i j) (Fin 1)) (fixed_area_at h w p i j))
         \<and> item (weights g') i j =
             np_add Float64 (item (weights g) i j)
               (np_div (areas_dtype p) (Fin 1) (fixed_area_at h w p i j))
         \<and> (area_at h w p i j = Fin 0 \<longrightarrow>
               item (weights g') i j =
                 np_add Float64 (item (weights g) i j) (ieee_round (areas_dtype p) (1 / 10000000))))"
proof -
  from composite_step_Inr [OF step sh] obtain new where
    new: "hist' = hist @ new"
    and px: "\<And>i j. item (outputs g') i j =
        foldl (np_add Float64) (item (outputs g) i j)
          (map (\<lambda>p. value_term h w p i j) (filter (\<lambda>p. covers h w p i j) new))"
      "\<And>i j. item (weights g') i j =
        foldl (np_add Float64) (item (weights g) i j)
          (map (\<lambda>p. weight_term h w p i j) (filter (\<lambda>p. covers h w p i j) new))"
    by blast
  from step vv obtain p where "hist' = hist @ [p]"
    by (auto simp: composite_step_def io_return_def io_raise_def
        elim!: io_bind_Inr split: sum.splits prod.splits)
  with new have new1: "new = [p]" by simp
  have "fixed_area_at h w p i j \<noteq> Fin 0
         \<and> item (outputs g') i j =
             np_add Float64 (item (outputs g) i j)
               (np_div (result_type (values_dtype p) (areas_dtype p))
                  (np_mul (values_dtype p) (value_at h w p i j) (Fin 1)) (fixed_area_at h w p i j))
         \<and> item (weights g') i j =
             np_add Float64 (item (weights g) i j)
               (np_div (areas_dtype p) (Fin 1) (fixed_area_at h w p i j))
         \<and> (area_at h w p i j = Fin 0 \<longrightarrow>
               item (weights g') i j =
                 np_add Float64 (item (weights g) i j) (ieee_round (areas_dtype p) (1 / 10000000)))"
    if "covers h w p i j" for i j
    using that by (simp add: px new1 value_term_def weight_term_def fixed_area_at_eq)
  moreover have "item (zero_area_fix (areas_read p)) k l =
           (if item (areas_read p) k l = Fin 0 then Fin 10000000 else item (areas_read p) k l)" for k l
    by (simp add: zero_area_fix_def)
  ultimately show ?thesis
    using \<open>hist' = hist @ [p]\<close> by blast
qed

theorem zero_area_sentinel_witness:
  "\<exists>g' t' pr' hist' d.
      composite_step disk_world 0 1 1 (- 1) (''z_flat_VV_reproj.tif'', 0, 1, 0, 1)
        (\<lparr>outputs = np_full 1 1 (Fin 0), weights = np_full 1 1 (Fin 0), counts = np_full 1 1 0\<rparr>,
         unit_transform, [], []) zero_area_disk = (Inr (g', t', pr', hist'), d)
    \<and> ieee_round Float32 (1 / 10000000) = Fin (14073749 / 140737488355328)
    \<and> item (weights g') 0 0 = Fin (14073749 / 140737488355328)
    \<and> item (outputs g') 0 0 = Fin (8796093 / 17592186044416)"
proof -
  let ?g = "\<lparr>outputs = np_full 1 1 (Fin 0), weights = np_full 1 1 (Fin 0), counts = np_full 1 1 0\<rparr>"
  let ?c = "(''z_flat_VV_reproj.tif'', 0::real, 1::real, 0::real, 1::real)"
  have "\<exists>g' t' pr' d. composite_step disk_world 0 1 1 (- 1) ?c (?g, unit_transform, [], []) zero_area_disk
      = (Inr (g', t', pr',
           [\<lparr>src = ''z_flat_VV_reproj.tif'', row_slice = (0, 1), col_slice = (0, 1),
             areas_dtype = Float32, areas_read = \<lparr>nrows = 1, ncols = 1, item = (\<lambda>i j. Fin 0)\<rparr>,
             values_dtype = Float32, values_read = \<lparr>nrows = 1, ncols = 1, item = (\<lambda>i j. Fin 5)\<rparr>\<rparr>]), d)"
    by (simp add: model_defs disk_defs zero_area_disk_def)
  then obtain g' t' pr' d where
    step: "composite_step disk_world 0 1 1 (- 1) ?c (?g, unit_transform, [], []) zero_area_disk
      = (Inr (g', t', pr',
           [\<lparr>src = ''z_flat_VV_reproj.tif'', row_slice = (0, 1), col_slice = (0, 1),
             areas_dtype = Float32, areas_read = \<lparr>nrows = 1, ncols = 1, item = (\<lambda>i j. Fin 0)\<rparr>,
             values_dtype = Float32, values_read = \<lparr>nrows = 1, ncols = 1, item = (\<lambda>i j. Fin 5)\<rparr>\<rparr>]), d)"
    by blast
  have vv: "py_in ''VV'' (fst ?c)" by simp
  have sh: "same_shape ?g 1 1" by (simp add: same_shape_def)
  have rounded: "ieee_round Float32 (1 / 10000000) = Fin (14073749 / 140737488355328)"
    "np_add Float64 (Fin 0) (np_div Float32 (Fin 1) (Fin 10000000))
       = Fin (14073749 / 140737488355328)"
    "np_add Float64 (Fin 0)
       (np_div Float32 (np_mul Float32 (Fin 5) (Fin 1)) (Fin 10000000))
       = Fin (8796093 / 17592186044416)"
    by (simp_all add: ieee_defs)
  from zero_area_sentinel [OF step vv sh]
  have "item (weights g') 0 0 = np_add Float64 (Fin 0) (np_div Float32 (Fin 1) (Fin 10000000))
      \<and> item (outputs g') 0 0
          = np_add Float64 (Fin 0) (np_div Float32 (np_mul Float32 (Fin 5) (Fin 1)) (Fin 10000000))"
    by (simp add: covers_def in_slice_def py_slice_def norm_index_def area_at_def value_at_def
        sample_at_def bc_def fixed_area_at_def zero_area_fix_def result_type_def
        del: np_add.simps np_div.simps np_mul.simps)
  then have "item (weights g') 0 0 = Fin (14073749 / 140737488355328)
      \<and> item (outputs g') 0 0 = Fin (8796093 / 17592186044416)"
    by (simp only: rounded)
  with step rounded(1) show ?thesis by blast
qed

subsection \<open>Polarizations other than VV\<close>

text \<open>
  Claim C4 says that for each of the polarizations VV, VH, HH and HV the rasters of
  that polarization are processed, each paired with its area map by replacing the
  suffix \<open>_flat_<POL>\<close> by \<open>_area_map\<close>. The code names VV only (lines 143, 144,
  217 and 222): the loop skips a raster whose name has no \<open>VV\<close>, the substitution
  leaves the name of a VH raster as it is, and a run on two VH rasters stops when
  \<open>reproject_to_median_utm\<close> links the raster to its own name.
\<close>

theorem other_polarization_not_processed:
  "get_pol ''a_flat_VH_reproj.tif'' = Inr ''VH''
   \<and> composite_step ext ulx uly px py (''a_flat_VH_reproj.tif'', x_max, x_min, y_max, y_min) st w
      = (Inr st, w)
   \<and> py_replace ''a_flat_VH.tif'' ''_flat_VV.tif'' ''_area_map.tif'' = ''a_flat_VH.tif''
   \<and> py_replace ''a_flat_VH.tif'' ''_flat_VV.tif'' ''_area_map_reproj.tif'' = ''a_flat_VH.tif''
   \<and> fst (make_composite disk_world ''out.tif'' (Some [''a_flat_VH.tif'', ''b_flat_VH.tif''])
             None (Some ''VH'') None vh_disk) = Inl FileExistsError"
proof -
  have "composite_step ext ulx uly px py (''a_flat_VH_reproj.tif'', x_max, x_min, y_max, y_min) st w
      = (Inr st, w)"
    by (simp add: composite_step_def io_return_def split: prod.splits)
  moreover have "fst (make_composite disk_world ''out.tif'' (Some [''a_flat_VH.tif'', ''b_flat_VH.tif''])
             None (Some ''VH'') None vh_disk) = Inl FileExistsError"
    by (simp add: model_defs disk_defs vh_disk_def)
  ultimately show ?thesis by (simp add: get_pol_def)
qed

subsection \<open>Resample or link\<close>

text \<open>
  Claim C5 says that a raster in the target zone is resampled when its pixel size is
  smaller than the target pixel size, and linked when it is equal or larger. Line 156
  compares the target pixel size with \<open>x\<close>, the raster's width in pixels: two rasters
  of 5000 columns and 10 m pixels are linked for a target of 30 m, and two rasters of
  20 columns whose 30 m pixels are the target itself are resampled.
\<close>

theorem finer_raster_is_linked:
  "gt1 (geot (square_raster 5000 10)) < 30
   \<and> fst (reproject_to_median_utm disk_world [''a_flat_VV.tif'', ''b_flat_VV.tif''] (Some 30) fine_disk)
       = Inr (Some [''a_flat_VV_reproj.tif'', ''b_flat_VV_reproj.tif''])
   \<and> events (snd (reproject_to_median_utm disk_world [''a_flat_VV.tif'', ''b_flat_VV.tif''] (Some 30) fine_disk))
       = [Linked ''a_flat_VV.tif'' ''a_flat_VV_reproj.tif'',
          Linked ''a_area_map.tif'' ''a_area_map_reproj.tif'',
          Linked ''b_flat_VV.tif'' ''b_flat_VV_reproj.tif'',
          Linked ''b_area_map.tif'' ''b_area_map_reproj.tif'']
   \<and> target_pixel_size disk_world [''a_flat_VV.tif'', ''b_flat_VV.tif''] None coarse_disk
       = (Inr (gt1 (geot (square_raster 20 30))), coarse_disk)
   \<and> events (snd (reproject_to_median_utm disk_world [''a_flat_VV.tif'', ''b_flat_VV.tif''] None coarse_disk))
       = [Warped ''a_flat_VV.tif'' ''a_flat_VV_reproj.tif'',
          Warped ''a_area_map.tif'' ''a_area_map_reproj.tif'',
          Warped ''b_flat_VV.tif'' ''b_flat_VV_reproj.tif'',
          Warped ''b_area_map.tif'' ''b_area_map_reproj.tif'']"
  by (simp add: model_defs disk_defs fine_disk_def coarse_disk_def square_raster_def)

subsection \<open>Fewer than two inputs\<close>

text \<open>
  With fewer than two input files \<open>reproject_to_median_utm\<close> returns \<open>None\<close>
  (lines 120--121) without a call to a collaborator, and line 187 takes \<^verbatim>\<open>len\<close> of
  it: \<open>make_composite\<close> ends in the TypeError of \<^verbatim>\<open>len(None)\<close>, with the outside world
  as the listing of the inputs left it.
\<close>

lemma single_input_raises_TypeError:
  assumes "establish_infiles ext infiles path (case pol of None \<Rightarrow> ''VV'' | Some p \<Rightarrow> p) w0
             = (Inr files, w1)"
    and "length files < 2"
  shows "reproject_to_median_utm ext files res w1 = (Inr None, w1)
     \<and> make_composite ext outfile infiles path pol res w0 = (Inl TypeError, w1)
     \<and> (path = None \<longrightarrow> w1 = w0)"
proof -
  have r: "reproject_to_median_utm ext files res w1 = (Inr None, w1)"
    using assms(2) by (simp add: reproject_to_median_utm_def io_return_def)
  have "make_composite ext outfile infiles path pol res w0 = (Inl TypeError, w1)"
    by (simp add: make_composite_def io_bind_def assms(1) r io_raise_def)
  moreover have "w1 = w0" if "path = None"
    using assms(1) that
    by (auto simp: establish_infiles_def io_return_def io_raise_def split: option.splits)
  ultimately show ?thesis using r by simp
qed

text \<open>
  The guard of lines 187--189 tests for an empty list. When \<open>reproject_to_median_utm\<close>
  returns a list, the list has one name for every input file, and there are at least two:
  the guard never fires.
\<close>

lemma reproject_loop_length:
  assumes "reproject_loop ext pix_size home_zone hemi files new_files w = (Inr fs, w')"
  shows "length fs = length new_files + length files"
  using assms
proof (induction files arbitrary: new_files w)
  case Nil
  then show ?case by (simp add: io_return_def)
next
  case (Cons fi files)
  from Cons.prems obtain name wm where
    "reproject_loop ext pix_size home_zone hemi files (new_files @ [name]) wm = (Inr fs, w')"
    by (auto elim: io_bind_Inr)
  from Cons.IH [OF this] show ?case by simp
qed

lemma resampled_files_not_empty:
  assumes "reproject_to_median_utm ext files res w = (Inr (Some fs), w')"
  shows "2 \<le> length files \<and> length fs = length files"
proof (cases "length files < 2")
  case True
  with assms show ?thesis
    by (simp add: reproject_to_median_utm_def io_return_def)
next
  case False
  with assms obtain pix_size home_zone hemi wm where
    "reproject_loop ext pix_size home_zone hemi files [] wm = (Inr fs, w')"
    by (auto simp: reproject_to_median_utm_def io_return_def elim!: io_bind_Inr)
  from reproject_loop_length [OF this] False show ?thesis by simp
qed

lemma mixed_run:
  "\<exists>s d. make_composite disk_world ''out.tif'' (Some [''a_flat_VV.tif'', ''b_flat_VH.tif''])
             None None (Some 2) mixed_disk = (Inr s, d)
     \<and> accumulated s =
         [\<lparr>src = ''a_flat_VV_reproj.tif'', row_slice = (0, 1), col_slice = (0, 1),
           areas_dtype = Float32, areas_read = \<lparr>nrows = 1, ncols = 1, item = (\<lambda>i j. Fin 1)\<rparr>,
           values_dtype = Float32, values_read = \<lparr>nrows = 1, ncols = 1, item = (\<lambda>i j. Fin 10)\<rparr>\<rparr>]
     \<and> events d =
         [Warped ''a_flat_VV.tif'' ''a_flat_VV_reproj.tif'',
          Warped ''a_area_map.tif'' ''a_area_map_reproj.tif'',
          Warped ''b_flat_VH.tif'' ''b_flat_VH_reproj.tif'',
          Warped ''b_flat_VH.tif'' ''b_flat_VH.tif'',
          WroteFloat ''composite_a_flat_VV_reproj.tif'',
          WroteFloat ''out.tif'', WroteInt ''counts.tif'']"
  by (simp add: model_defs disk_defs mixed_disk_def)

text \<open>
  Claim C8 says that with fewer than two usable input rasters the run aborts with a
  configuration error before any output is written, \<open>make_composite\<close> treating the
  \<open>None\<close> of \<open>reproject_to_median_utm\<close> as a fatal error state. The code has no such
  handling. For one input file the run ends in the TypeError that \<^verbatim>\<open>len(None)\<close> raises
  on line 187; the guard of lines 187--189 never fires, and line 188 calls the
  undefined name \<^verbatim>\<open>exception\<close>. For two input files of which only one is a VV raster
  with an area map, nothing is counted: the run completes, accumulates the one raster
  and writes the composite and the coverage count.
\<close>

theorem too_few_inputs_not_handled:
  "reproject_to_median_utm disk_world [''a_flat_VV.tif''] None overlap_disk = (Inr None, overlap_disk)
   \<and> make_composite disk_world ''out.tif'' (Some [''a_flat_VV.tif'']) None None None overlap_disk
       = (Inl TypeError, overlap_disk)
   \<and> (\<exists>s d. make_composite disk_world ''out.tif'' (Some [''a_flat_VV.tif'', ''b_flat_VH.tif''])
               None None (Some 2) mixed_disk = (Inr s, d)
         \<and> map src (accumulated s) = [''a_flat_VV_reproj.tif'']
         \<and> WroteFloat ''out.tif'' \<in> set (events d) \<and> WroteInt ''counts.tif'' \<in> set (events d))"
proof -
  have "reproject_to_median_utm disk_world [''a_flat_VV.tif''] None overlap_disk = (Inr None, overlap_disk)
   \<and> make_composite disk_world ''out.tif'' (Some [''a_flat_VV.tif'']) None None None overlap_disk
       = (Inl TypeError, overlap_disk)"
    using single_input_raises_TypeError [of disk_world "Some [''a_flat_VV.tif'']" None None overlap_disk
      "[''a_flat_VV.tif'']" overlap_disk None "''out.tif''"]
    by (simp add: establish_infiles_def io_return_def)
  moreover have "\<exists>s d. make_composite disk_world ''out.tif'' (Some [''a_flat_VV.tif'', ''b_flat_VH.tif''])
               None None (Some 2) mixed_disk = (Inr s, d)
         \<and> map src (accumulated s) = [''a_flat_VV_reproj.tif'']
         \<and> WroteFloat ''out.tif'' \<in> set (events d) \<and> WroteInt ''counts.tif'' \<in> set (events d)"
  proof -
    from mixed_run obtain s d where
      run: "make_composite disk_world ''out.tif'' (Some [''a_flat_VV.tif'', ''b_flat_VH.tif''])
               None None (Some 2) mixed_disk = (Inr s, d)"
      and acc: "accumulated s =
         [\<lparr>src = ''a_flat_VV_reproj.tif'', row_slice = (0, 1), col_slice = (0, 1),
           areas_dtype = Float32, areas_read = \<lparr>nrows = 1, ncols = 1, item = (\<lambda>i j. Fin 1)\<rparr>,
           values_dtype = Float32, values_read = \<lparr>nrows = 1, ncols = 1, item = (\<lambda>i j. Fin 10)\<rparr>\<rparr>]"
      and ev: "events d =
         [Warped ''a_flat_VV.tif'' ''a_flat_VV_reproj.tif'',
          Warped ''a_area_map.tif'' ''a_area_map_reproj.tif'',
          Warped ''b_flat_VH.tif'' ''b_flat_VH_reproj.tif'',
          Warped ''b_flat_VH.tif'' ''b_flat_VH.tif'',
          WroteFloat ''composite_a_flat_VV_reproj.tif'',
          WroteFloat ''out.tif'', WroteInt ''counts.tif'']"
      by blast
    show ?thesis
      by (rule exI [of _ s], rule exI [of _ d]) (simp add: run acc ev)
  qed
  ultimately show ?thesis by simp
qed

subsection \<open>The target pixel size\<close>

lemma max_pixel_loop_pure:
  assumes "\<forall>fi \<in> set files. read_gdal_file_geo ext fi w = (Inr (geo fi), w)"
  shows "max_pixel_loop ext files p w
           = (Inr (Max (insert p (pixel_width ` geo ` set files))), w)"
  using assms
proof (induction files arbitrary: p)
  case Nil
  show ?case by (simp add: io_return_def)
next
  case (Cons fi files)
  have rd: "read_gdal_file_geo ext fi w = (Inr (geo fi), w)"
    using Cons.prems by simp
  obtain x y t pr where g: "geo fi = (x, y, t, pr)"
    by (cases "geo fi") auto
  have "max_pixel_loop ext (fi # files) p w = max_pixel_loop ext files (max p (gt1 t)) w"
    by (simp add: io_bind_def rd g)
  also have "\<dots> = (Inr (Max (insert (max p (gt1 t)) (pixel_width ` geo ` set files))), w)"
    by (rule Cons.IH) (use Cons.prems in simp)
  also have "Max (insert (max p (gt1 t)) (pixel_width ` geo ` set files))
      = Max (insert p (pixel_width ` geo ` set (fi # files)))"
  proof -
    have pw: "pixel_width (geo fi) = gt1 t"
      by (simp add: pixel_width_def g)
    have "Max (insert (max (gt1 t) p) (pixel_width ` geo ` set files))
        = Max (insert p (insert (gt1 t) (pixel_width ` geo ` set files)))"
      by (rule Max_insert_max) simp
    then show ?thesis
      by (simp only: list.set image_insert pw max.commute)
  qed
  finally show ?case .
qed

text \<open>
  Claim C9, as stated: the target pixel size is the supplied resolution when one is
  given, otherwise the maximum pixel width of the input rasters. A supplied
  resolution of 0 is not used (line 124 tests its truth value): for rasters of 10 m
  the target is 10.
\<close>

theorem target_pixel_size_counterexample:
  "target_pixel_size disk_world [''a_flat_VV.tif'', ''b_flat_VV.tif''] (Some 0) fine_disk
     = (Inr 10, fine_disk)"
  by (simp add: model_defs disk_defs fine_disk_def square_raster_def)

text \<open>
  Claim C9, amended: the target pixel size is the supplied resolution when one is
  given and is not 0; when none is given, or 0 is given, and reading the geometry of
  the input rasters succeeds and leaves the outside world as it is, it is the maximum
  pixel width (geotransform element 1) over all input rasters, as
  \<open>get_max_pixel_size\<close> computes it, provided that the pixel width of some raster is at
  least \<open>-999\<close>.
\<close>

theorem target_pixel_size_rule:
  "(\<forall>r. resolution = Some r \<and> r \<noteq> 0 \<longrightarrow>
        target_pixel_size ext files resolution w = (Inr r, w))
   \<and> ((resolution = None \<or> resolution = Some 0)
        \<and> (\<forall>fi \<in> set files. read_gdal_file_geo ext fi w = (Inr (geo fi), w))
        \<and> (\<exists>fi \<in> set files. - 999 \<le> pixel_width (geo fi)) \<longrightarrow>
        target_pixel_size ext files resolution w = (Inr (Max (pixel_width ` geo ` set files)), w)
      \<and> get_max_pixel_size ext files w = (Inr (Max (pixel_width ` geo ` set files)), w))"
proof -
  have given: "target_pixel_size ext files (Some r) w = (Inr r, w)" if "r \<noteq> 0" for r
    using that by (simp add: target_pixel_size_def io_return_def)
  have computed: "target_pixel_size ext files resolution w
        = (Inr (Max (pixel_width ` geo ` set files)), w)
      \<and> get_max_pixel_size ext files w = (Inr (Max (pixel_width ` geo ` set files)), w)"
    if res: "resolution = None \<or> resolution = Some 0"
      and rd: "\<forall>fi \<in> set files. read_gdal_file_geo ext fi w = (Inr (geo fi), w)"
      and wd: "\<exists>fi \<in> set files. - 999 \<le> pixel_width (geo fi)"
  proof -
    have "get_max_pixel_size ext files w
        = (Inr (Max (insert (- 999) (pixel_width ` geo ` set files))), w)"
      unfolding get_max_pixel_size_def by (rule max_pixel_loop_pure) (rule rd)
    moreover have "Max (insert (- 999) (pixel_width ` geo ` set files))
        = Max (pixel_width ` geo ` set files)"
      using wd by (auto intro: Max_insert_below)
    ultimately have "get_max_pixel_size ext files w
        = (Inr (Max (pixel_width ` geo ` set files)), w)"
      by simp
    with res show ?thesis
      by (auto simp: target_pixel_size_def)
  qed
  from given computed show ?thesis by blast
qed

theorem target_pixel_size_rule_witness:
  "target_pixel_size disk_world [''a_flat_VV.tif'', ''b_flat_VV.tif''] None fine_disk
     = (Inr 10, fine_disk)
   \<and> target_pixel_size disk_world [''a_flat_VV.tif'', ''b_flat_VV.tif''] (Some 30) fine_disk
     = (Inr 30, fine_disk)"
proof -
  let ?geo = "\<lambda>fi::fname. (5000::nat, 5000::nat, geot (square_raster 5000 10), ''WGS 84 / UTM zone 10N'')"
  have rd: "\<forall>fi \<in> set [''a_flat_VV.tif'', ''b_flat_VV.tif''].
      read_gdal_file_geo disk_world fi fine_disk = (Inr (?geo fi), fine_disk)"
    by (simp add: disk_defs fine_disk_def square_raster_def)
  have wd: "\<exists>fi \<in> set [''a_flat_VV.tif'', ''b_flat_VV.tif'']. - 999 \<le> pixel_width (?geo fi)"
    by (auto simp: pixel_width_def square_raster_def)
  have "target_pixel_size disk_world [''a_flat_VV.tif'', ''b_flat_VV.tif''] None fine_disk
      = (Inr (Max (pixel_width ` ?geo ` set [''a_flat_VV.tif'', ''b_flat_VV.tif''])), fine_disk)"
    using target_pixel_size_rule [of None disk_world "[''a_flat_VV.tif'', ''b_flat_VV.tif'']"
        fine_disk ?geo] rd wd
    by blast
  moreover have "target_pixel_size disk_world [''a_flat_VV.tif'', ''b_flat_VV.tif''] (Some 30) fine_disk
      = (Inr 30, fine_disk)"
    using target_pixel_size_rule [of "Some 30" disk_world "[''a_flat_VV.tif'', ''b_flat_VV.tif'']"
        fine_disk ?geo]
    by simp
  ultimately show ?thesis
    by (simp add: pixel_width_def square_raster_def)
qed

subsection \<open>The coverage count\<close>

lemma sint_int8_to_int16: "sint (scast (x :: int8) :: int16) = sint x"
  by (simp add: sint_up_scast is_up)

lemma sint_int8_of_nat: "sint (of_nat n :: int8) = (int n + 128) mod 256 - 128"
proof -
  have "(of_nat n :: int8) = word_of_int (int n)" by simp
  then show ?thesis by (simp only: int_word_sint) simp
qed

text \<open>
  Claim C10: the coverage count is kept in signed 8-bit integers (line 213) and only
  cast to 16 bits when it is written (line 252). For a pixel covered by \<open>n\<close> rasters
  the count written is \<open>n\<close> wrapped into the range from \<open>-128\<close> to 127: it is \<open>n\<close> up to
  127 rasters and differs from \<open>n\<close> beyond. A pixel under a stack of 128 rasters is
  written as \<open>-128\<close>.
\<close>

theorem coverage_count_int8:
  assumes run: "make_composite ext outfile infiles path pol res w0 = (Inr s, w1)"
    and i: "i < nrows (count_grid s)" and j: "j < ncols (count_grid s)"
  shows "sint (item (count_grid s) i j) = (int (length (covering s i j)) + 128) mod 256 - 128
     \<and> (127 < length (covering s i j) \<longrightarrow>
           sint (item (count_grid s) i j) \<noteq> int (length (covering s i j)))
     \<and> (length (covering s i j) \<le> 127 \<longrightarrow>
           sint (item (count_grid s) i j) = int (length (covering s i j)))"
proof -
  let ?n = "length (covering s i j)"
  have eq: "sint (item (count_grid s) i j) = (int ?n + 128) mod 256 - 128"
    by (simp only: make_composite_pixel(2) [OF run] sint_int8_to_int16 sint_int8_of_nat)
  have "(int ?n + 128) mod 256 - 128 \<le> 127"
    by (simp add: pos_mod_bound [of 256 "int ?n + 128"] less_imp_le)
  moreover have "(int ?n + 128) mod 256 - 128 = int ?n" if "?n \<le> 127"
    using that by simp
  ultimately show ?thesis
    unfolding eq by auto
qed

subsection \<open>A stack of rasters on one pixel\<close>

lemma stack_zone: "get_zone_from_proj stack_world fi () = (Inr (Some 10), ())"
  by (simp add: get_zone_from_proj_def stack_world_def parse_utm_def match_here_def is_digit_def
      int_of_digits_def digit_val_def io_bind_def io_return_def)

lemma stack_hemisphere: "get_hemisphere stack_world fi () = (Inr (Some ''N''), ())"
  by (simp add: get_hemisphere_def stack_world_def parse_utm_def match_here_def is_digit_def
      int_of_digits_def digit_val_def io_bind_def io_return_def)

lemma stack_zones_loop:
  "zones_loop stack_world fs acc () = (Inr (acc @ replicate (length fs) 10), ())"
proof (induction fs arbitrary: acc)
  case Nil
  show ?case by (simp add: io_return_def)
next
  case (Cons f fs)
  show ?case
    by (simp add: io_bind_def stack_zone Cons.IH replicate_app_Cons_same)
qed

lemma stack_max_pixel:
  "max_pixel_loop stack_world fs p () = (Inr (if fs = [] then p else max p 1), ())"
proof (induction fs arbitrary: p)
  case Nil
  show ?case by (simp add: io_return_def)
next
  case (Cons f fs)
  have "read_gdal_file_geo stack_world f ()
      = (Inr (1, 1, unit_transform, ''WGS 84 / UTM zone 10N''), ())"
    by (simp add: stack_world_def io_return_def)
  then show ?case
    by (simp add: io_bind_def Cons.IH unit_transform_def)
qed

lemma stack_median:
  assumes "0 < n"
  shows "np_median (replicate n 10) = Fin 10"
proof -
  have "sort (map sint (replicate n (10 :: int8))) = replicate n 10"
    by (simp add: sorted_sort_id)
  moreover have "n div 2 < n" "n div 2 - 1 < n"
    using assms by simp_all
  ultimately show ?thesis
    by (simp add: np_median_def Let_def)
qed

lemma stack_reproject_one:
  "reproject_one stack_world pix (Fin 10) hemi fi ()
     = (Inr (py_replace fi ''.tif'' ''_reproj.tif''), ())"
proof -
  have "read_gdal_file_geo stack_world fi ()
      = (Inr (1, 1, unit_transform, ''WGS 84 / UTM zone 10N''), ())"
    by (simp add: stack_world_def io_return_def)
  then show ?thesis
    by (simp add: reproject_one_def io_bind_def stack_zone zone_differs_def Let_def)
       (simp add: stack_world_def io_return_def)
qed

lemma stack_reproject_loop:
  "reproject_loop stack_world pix (Fin 10) hemi fs acc ()
     = (Inr (acc @ map (\<lambda>f. py_replace f ''.tif'' ''_reproj.tif'') fs), ())"
proof (induction fs arbitrary: acc)
  case Nil
  show ?case by (simp add: io_return_def)
next
  case (Cons f fs)
  show ?case
    by (simp add: io_bind_def stack_reproject_one Cons.IH)
qed

lemma stack_reproject:
  assumes "2 \<le> n"
  shows "reproject_to_median_utm stack_world (replicate n f) None ()
     = (Inr (Some (replicate n (py_replace f ''.tif'' ''_reproj.tif''))), ())"
proof -
  have n: "0 < n" "\<not> n < 2" using assms by simp_all
  have z: "parse_zones stack_world (replicate n f) () = (Inr (map of_int (replicate n 10)), ())"
    by (simp add: parse_zones_def io_bind_def stack_zones_loop io_return_def)
  have p: "target_pixel_size stack_world (replicate n f) None () = (Inr 1, ())"
    using n by (simp add: target_pixel_size_def get_max_pixel_size_def stack_max_pixel)
  show ?thesis
    using n
    by (simp add: reproject_to_median_utm_def io_bind_def p z stack_hemisphere
        stack_median [OF n(1)] stack_reproject_loop io_return_def)
qed

lemma stack_extents:
  "extents_loop stack_world fs acc () = (Inr (acc @ map (\<lambda>f. (f, 0, 1, 0, 1)) fs), ())"
proof (induction fs arbitrary: acc)
  case Nil
  show ?case by (simp add: io_return_def)
next
  case (Cons f fs)
  have "getCorners stack_world f () = (Inr (0, 1, 0, 1), ())"
    by (simp add: stack_world_def io_return_def)
  then show ?case
    by (simp add: io_bind_def Cons.IH)
qed

lemma stack_extent:
  assumes "0 < n"
  shows "get_full_extent (replicate n (f, 0, 1, 0, 1)) = (0, 1, 1, 0)"
  using assms by (simp add: get_full_extent_closed_form corner_projections)


lemma stack_placement:
  "placement 0 1 1 (- 1) (fi, 0, 1, 0, 1) 1 1 = Inr ((0, 1), (0, 1))"
  by (simp add: placement_def py_int_def)

lemma accumulate_unit:
  assumes "nrows areas = 1" "ncols areas = 1" "nrows vals = 1" "ncols vals = 1"
  shows "\<exists>g'. accumulate g rs cs dta areas dtv vals = Inr g'"
  using assms by (simp add: accumulate_def broadcast2_def bdim_def iadd_slice_def)

lemma stack_step:
  "\<exists>g'. composite_step stack_world 0 1 1 (- 1) (''s_flat_VV_reproj.tif'', 0, 1, 0, 1)
           (g, t, pr, hist) ()
     = (Inr (g', unit_transform, ''WGS 84 / UTM zone 10N'',
             hist @ [\<lparr>src = ''s_flat_VV_reproj.tif'', row_slice = (0, 1), col_slice = (0, 1),
                      areas_dtype = Float32, areas_read = np_full 1 1 (Fin 1), values_dtype = Float32, values_read = np_full 1 1 (Fin 1)\<rparr>]), ())"
proof -
  let ?c = "(''s_flat_VV_reproj.tif'', 0 :: real, 1 :: real, 0 :: real, 1 :: real)"
  let ?A = "np_full 1 1 (Fin 1)"
  have vv: "py_in ''VV'' ''s_flat_VV_reproj.tif''" by simp
  have rd: "io_bind (read_gdal_file stack_world fi) f ()
      = f (1, 1, unit_transform, ''WGS 84 / UTM zone 10N'', Float32, ?A) ()"
    for fi and f :: "_ \<Rightarrow> (loop_state, unit) io"
    by (simp add: io_bind_def stack_world_def io_return_def)
  obtain g' where acc: "accumulate g (0, 1) (0, 1) Float32 (zero_area_fix ?A) Float32 ?A = Inr g'"
    using accumulate_unit [where areas = "zero_area_fix ?A" and vals = ?A and g = g
        and rs = "(0, 1)" and cs = "(0, 1)" and dta = Float32 and dtv = Float32]
    by (auto simp: zero_area_fix_def)
  have wr: "io_bind (write_gdal_file_float stack_world fi tr p B nd) f () = f () ()"
    for fi tr p B nd and f :: "_ \<Rightarrow> (loop_state, unit) io"
    by (simp add: io_bind_def stack_world_def io_return_def)
  have "composite_step stack_world 0 1 1 (- 1) ?c (g, t, pr, hist) ()
     = (Inr (g', unit_transform, ''WGS 84 / UTM zone 10N'',
             hist @ [\<lparr>src = ''s_flat_VV_reproj.tif'', row_slice = (0, 1), col_slice = (0, 1),
                      areas_dtype = Float32, areas_read = ?A,
                      values_dtype = Float32, values_read = ?A\<rparr>]), ())"
    unfolding composite_step_def
    by (simp only: prod.case vv if_True rd stack_placement fst_conv sum.case acc wr io_return_def)
  then show ?thesis by blast
qed

lemma stack_loop:
  "\<exists>g' t' pr'. composite_loop stack_world 0 1 1 (- 1)
        (replicate n (''s_flat_VV_reproj.tif'', 0, 1, 0, 1)) (g, t, pr, hist) ()
     = (Inr (g', t', pr',
             hist @ replicate n \<lparr>src = ''s_flat_VV_reproj.tif'', row_slice = (0, 1),
                      col_slice = (0, 1), areas_dtype = Float32, areas_read = np_full 1 1 (Fin 1),
                      values_dtype = Float32, values_read = np_full 1 1 (Fin 1)\<rparr>), ())"
proof (induction n arbitrary: g t pr hist)
  case 0
  show ?case by (simp add: io_return_def)
next
  case (Suc n)
  let ?p = "\<lparr>src = ''s_flat_VV_reproj.tif'', row_slice = (0, 1),
                      col_slice = (0, 1), areas_dtype = Float32, areas_read = np_full 1 1 (Fin 1),
                      values_dtype = Float32, values_read = np_full 1 1 (Fin 1)\<rparr>"
  from stack_step [of g t pr hist] obtain g1 where
    step: "composite_step stack_world 0 1 1 (- 1) (''s_flat_VV_reproj.tif'', 0, 1, 0, 1)
           (g, t, pr, hist) ()
       = (Inr (g1, unit_transform, ''WGS 84 / UTM zone 10N'', hist @ [?p]), ())"
    by blast
  from Suc.IH [of g1 unit_transform "''WGS 84 / UTM zone 10N''" "hist @ [?p]"]
  obtain g' t' pr' where
    "composite_loop stack_world 0 1 1 (- 1)
        (replicate n (''s_flat_VV_reproj.tif'', 0, 1, 0, 1))
        (g1, unit_transform, ''WGS 84 / UTM zone 10N'', hist @ [?p]) ()
     = (Inr (g', t', pr', (hist @ [?p]) @ replicate n ?p), ())"
    by blast
  then show ?case
    by (simp add: io_bind_def step replicate_app_Cons_same)
qed

lemma stack_run:
  assumes "2 \<le> n"
  shows "\<exists>s. make_composite stack_world ''out.tif'' (Some (replicate n ''s_flat_VV.tif''))
               None None None () = (Inr s, ())
     \<and> nrows (count_grid s) = 1 \<and> ncols (count_grid s) = 1
     \<and> length (covering s 0 0) = n"
proof -
  let ?p = "\<lparr>src = ''s_flat_VV_reproj.tif'', row_slice = (0, 1),
                      col_slice = (0, 1), areas_dtype = Float32, areas_read = np_full 1 1 (Fin 1),
                      values_dtype = Float32, values_read = np_full 1 1 (Fin 1)\<rparr>"
  let ?g0 = "\<lparr>outputs = np_full 1 1 (Fin 0), weights = np_full 1 1 (Fin 0),
              counts = np_full 1 1 (0 :: int8)\<rparr>"
  let ?c = "(''s_flat_VV_reproj.tif'', 0 :: real, 1 :: real, 0 :: real, 1 :: real)"
  let ?wkt = "''WGS 84 / UTM zone 10N''"
  have n: "0 < n" using assms by simp
  from stack_loop [of n ?g0 unit_transform ?wkt "[]"]
  obtain g t pr where
    loop: "composite_loop stack_world 0 1 1 (- 1) (replicate n ?c)
        (?g0, unit_transform, ?wkt, []) () = (Inr (g, t, pr, replicate n ?p), ())"
    by auto
  have sh0: "same_shape ?g0 1 1" by (simp add: same_shape_def)
  from composite_loop_Inr [OF loop sh0] have sh: "same_shape g 1 1" by simp
  have files: "io_bind (establish_infiles stack_world (Some (replicate n ''s_flat_VV.tif'')) None ''VV'') f ()
      = f (replicate n ''s_flat_VV.tif'') ()" for f :: "_ \<Rightarrow> (summary, unit) io"
    by (simp add: io_bind_def establish_infiles_def io_return_def sorted_sort_id)
  have repro: "io_bind (reproject_to_median_utm stack_world (replicate n ''s_flat_VV.tif'') None) f ()
      = f (Some (replicate n ''s_flat_VV_reproj.tif'')) ()" for f :: "_ \<Rightarrow> (summary, unit) io"
    using stack_reproject [OF assms, of "''s_flat_VV.tif''"] by (simp add: io_bind_def)
  have nonempty: "(length (replicate n ''s_flat_VV_reproj.tif'') = 0) = False"
    using n by simp
  have geo: "io_bind (read_gdal_file_geo stack_world fi) f () = f (1, 1, unit_transform, ?wkt) ()"
    for fi and f :: "_ \<Rightarrow> (summary, unit) io"
    by (simp add: io_bind_def stack_world_def io_return_def)
  have exts: "io_bind (extents_loop stack_world (replicate n ''s_flat_VV_reproj.tif'') []) f ()
      = f (replicate n ?c) ()" for f :: "_ \<Rightarrow> (summary, unit) io"
    by (simp add: io_bind_def stack_extents)
  have extent: "get_full_extent (replicate n ?c) = (0, 1, 1, 0)"
    by (rule stack_extent [OF n])
  have sizes: "gt1 unit_transform = 1" "gt5 unit_transform = - 1"
    by (simp_all add: unit_transform_def)
  have shape: "grid_shape (0, 1, 1, 0) 1 (- 1) = Inr (1, 1)"
    by (simp add: grid_shape_def py_int_def ceiling_minus)
  have wr: "io_bind (write_gdal_file_float stack_world fi tr p A nd) f () = f () ()"
    "io_bind (write_gdal_file stack_world fi tr p B) f () = f () ()"
    for fi tr p A nd B and f :: "_ \<Rightarrow> (summary, unit) io"
    by (simp_all add: io_bind_def stack_world_def io_return_def)
  have lp: "io_bind (composite_loop stack_world 0 1 1 (- 1) (replicate n ?c)
        (?g0, unit_transform, ?wkt, [])) f () = f (g, t, pr, replicate n ?p) ()"
    for f :: "_ \<Rightarrow> (summary, unit) io"
    by (simp only: io_bind_def loop prod.case sum.case)
  have ret: "io_return x () = (Inr x, ())" for x :: summary
    by (simp add: io_return_def)
  have run: "make_composite stack_world ''out.tif'' (Some (replicate n ''s_flat_VV.tif''))
               None None None ()
      = (Inr \<lparr>composite = divide_by_weights g, count_grid = astype_int16 (counts g),
              accumulated = replicate n ?p\<rparr>, ())"
    unfolding make_composite_def
    by (simp only: option.case files repro nonempty if_False geo prod.case exts extent sizes
        shape sum.case fst_conv snd_conv lp wr ret)
  have dims: "nrows (divide_by_weights g) = 1" "ncols (divide_by_weights g) = 1"
    "nrows (astype_int16 (counts g)) = 1" "ncols (astype_int16 (counts g)) = 1"
    using sh by (simp_all add: divide_by_weights_def astype_int16_def same_shape_def)
  have "covers 1 1 ?p 0 0"
    by (simp add: covers_def in_slice_def py_slice_def norm_index_def)
  then have "covering \<lparr>composite = divide_by_weights g, count_grid = astype_int16 (counts g),
              accumulated = replicate n ?p\<rparr> 0 0 = replicate n ?p"
    by (simp add: covering_def dims)
  then have "length (covering \<lparr>composite = divide_by_weights g,
              count_grid = astype_int16 (counts g), accumulated = replicate n ?p\<rparr> 0 0) = n"
    by simp
  with run dims show ?thesis by simp
qed

theorem coverage_count_int8_witness:
  "\<exists>s. make_composite stack_world ''out.tif'' (Some (replicate 128 ''s_flat_VV.tif''))
               None None None () = (Inr s, ())
     \<and> length (covering s 0 0) = 128
     \<and> sint (item (count_grid s) 0 0) = - 128"
proof -
  have "(2::nat) \<le> 128" by simp
  from stack_run [OF this] obtain s where
    run: "make_composite stack_world ''out.tif'' (Some (replicate 128 ''s_flat_VV.tif''))
               None None None () = (Inr s, ())"
    and dims: "nrows (count_grid s) = 1" "ncols (count_grid s) = 1"
    and len: "length (covering s 0 0) = 128"
    by blast
  have i: "0 < nrows (count_grid s)" and j: "0 < ncols (count_grid s)"
    by (simp_all add: dims)
  from coverage_count_int8 [OF run i j]
  have "sint (item (count_grid s) 0 0) = (int (length (covering s 0 0)) + 128) mod 256 - 128"
    by blast
  then have "sint (item (count_grid s) 0 0) = - 128"
    by (simp only: len) simp
  with run len show ?thesis by blast
qed

end
